theory Spec2Isabelle
  imports Complex_Main "HOL-Library.Sublist" "HOL-Library.Multiset"
begin

section \<open>Python values carried in message payloads\<close>

text \<open>
  \<^verbatim>\<open>BackgroundMessage.data\<close> is declared \<^verbatim>\<open>Optional[Dict[str, Any]]\<close>. The payload values are
  modelled as the JSON-compatible Python values: \<^verbatim>\<open>None\<close>, \<^verbatim>\<open>bool\<close>, \<^verbatim>\<open>int\<close> (unbounded),
  \<^verbatim>\<open>float\<close>, \<^verbatim>\<open>str\<close>, \<^verbatim>\<open>list\<close> and \<^verbatim>\<open>dict\<close> with string keys. A finite float is identified
  with the rational number it denotes (no arithmetic is done on payload floats, only truth
  tests, comparisons and hashing, all of which Python performs on the exact value); NaN and
  the infinities are outside the model. A string is the list of the bytes of its UTF-8
  encoding. A dict is the association list of its items in insertion order, each key once
  (a lookup takes the first binding of a key).
\<close>

datatype pyval =
    PNone
  | PBool bool
  | PInt int
  | PFloat rat
  | PStr string
  | PList "pyval list"
  | PDict "(string \<times> pyval) list"

type_synonym pydict = "(string \<times> pyval) list"

text \<open>The Python exceptions that the modelled code can raise; all derive from \<^verbatim>\<open>Exception\<close>.\<close>

datatype py_exn = ValidationError | TypeError | KeyError | ValueError | RecursionError

text \<open>Truth value of a Python object, as tested by \<^verbatim>\<open>not x\<close> and \<^verbatim>\<open>if x\<close>.\<close>

fun truthy :: "pyval \<Rightarrow> bool" where
  "truthy PNone = False"
| "truthy (PBool b) = b"
| "truthy (PInt i) = (i \<noteq> 0)"
| "truthy (PFloat r) = (r \<noteq> 0)"
| "truthy (PStr s) = (s \<noteq> [])"
| "truthy (PList xs) = (xs \<noteq> [])"
| "truthy (PDict d) = (d \<noteq> [])"

text \<open>The numeric value of \<^verbatim>\<open>bool\<close>, \<^verbatim>\<open>int\<close> and \<^verbatim>\<open>float\<close>: Python compares and hashes them by it.\<close>

fun num_of :: "pyval \<Rightarrow> rat option" where
  "num_of (PBool b) = Some (of_bool b)"
| "num_of (PInt i) = Some (of_int i)"
| "num_of (PFloat r) = Some r"
| "num_of _ = None"

text \<open>
  The limits of the Python interpreter that a handler can run into:
  \<^verbatim>\<open>sys.get_int_max_str_digits()\<close> (4300 by default; 0, or an interpreter that has no such
  limit, means none), and how many further nested calls of \<^verbatim>\<open>repr\<close> and of a comparison
  still fit under the recursion limit where a handler runs.
\<close>

record interp =
  int_max_str_digits :: nat
  repr_depth :: nat
  eq_depth :: nat

definition cpython_defaults :: interp where
  "cpython_defaults = \<lparr> int_max_str_digits = 4300, repr_depth = 1000, eq_depth = 1000 \<rparr>"

text \<open>The first exception of a sequence of evaluations done from left to right.\<close>

fun first_exn :: "py_exn option list \<Rightarrow> py_exn option" where
  "first_exn [] = None"
| "first_exn (None # rs) = first_exn rs"
| "first_exn (Some e # rs) = Some e"

text \<open>
  What \<^verbatim>\<open>repr\<close> of a payload value raises, if anything, with \<open>d\<close> nested calls left: every
  value takes one call, the elements of a list and the values of a dict are printed from
  left to right one call deeper, and printing an \<^verbatim>\<open>int\<close> of more decimal digits than the
  limit raises \<^verbatim>\<open>ValueError\<close>.
\<close>

fun repr_raises :: "interp \<Rightarrow> nat \<Rightarrow> pyval \<Rightarrow> py_exn option" where
  "repr_raises env 0 v = Some RecursionError"
| "repr_raises env (Suc d) v =
     (case v of
        PInt i \<Rightarrow>
          if int_max_str_digits env \<noteq> 0 \<and> 10 ^ int_max_str_digits env \<le> \<bar>i\<bar>
          then Some ValueError else None
      | PList xs \<Rightarrow> first_exn (map (repr_raises env d) xs)
      | PDict kvs \<Rightarrow> first_exn (map (\<lambda>(k, x). repr_raises env d x) kvs)
      | _ \<Rightarrow> None)"

text \<open>
  What formatting a payload value in an f-string (\<^verbatim>\<open>f"{v}"\<close>) raises, if anything, and the
  same for the values of one f-string, formatted from left to right.
\<close>

definition fmt :: "interp \<Rightarrow> pyval \<Rightarrow> py_exn option" where
  "fmt env v = repr_raises env (Suc (repr_depth env)) v"

definition fmt_all :: "interp \<Rightarrow> pyval list \<Rightarrow> py_exn option" where
  "fmt_all env vs = first_exn (map (fmt env) vs)"

text \<open>
  Python's \<^verbatim>\<open>==\<close> on payload values, with \<open>d\<close> nested comparisons left. Every comparison
  takes one call. Lists and dicts of different lengths are unequal without a look at their
  elements; otherwise the elements are compared from left to right, one call deeper, up to
  the first that differs or raises. The two operands are distinct objects, as the payloads
  of two messages are.
\<close>

fun all_true :: "(py_exn + bool) list \<Rightarrow> py_exn + bool" where
  "all_true [] = Inr True"
| "all_true (Inl e # rs) = Inl e"
| "all_true (Inr b # rs) = (if b then all_true rs else Inr False)"

fun py_eq_depth :: "nat \<Rightarrow> pyval \<Rightarrow> pyval \<Rightarrow> py_exn + bool" where
  "py_eq_depth 0 v w = Inl RecursionError"
| "py_eq_depth (Suc d) v w =
     (case v of
        PNone \<Rightarrow> Inr (w = PNone)
      | PStr a \<Rightarrow> Inr (w = PStr a)
      | PList xs \<Rightarrow>
          (case w of
             PList ys \<Rightarrow>
               if length xs \<noteq> length ys then Inr False
               else all_true (map (\<lambda>(x, y). py_eq_depth d x y) (zip xs ys))
           | _ \<Rightarrow> Inr False)
      | PDict kvs \<Rightarrow>
          (case w of
             PDict kws \<Rightarrow>
               if length kvs \<noteq> length kws then Inr False
               else all_true (map (\<lambda>(k, a). case map_of kws k of
                                               None \<Rightarrow> Inr False
                                             | Some b \<Rightarrow> py_eq_depth d b a) kvs)
           | _ \<Rightarrow> Inr False)
      | _ \<Rightarrow> Inr (case num_of w of None \<Rightarrow> False | Some r \<Rightarrow> num_of v = Some r))"

definition py_eq :: "interp \<Rightarrow> pyval \<Rightarrow> pyval \<Rightarrow> py_exn + bool" where
  "py_eq env v w = py_eq_depth (Suc (eq_depth env)) v w"

text \<open>
  Keys of a Python dict: hashing a list or a dict raises \<^verbatim>\<open>TypeError\<close>; numbers that compare
  equal (\<^verbatim>\<open>True\<close>, \<^verbatim>\<open>1\<close>, \<^verbatim>\<open>1.0\<close>) are one and the same key.
\<close>

datatype key = KNone | KNum rat | KStr string

fun hash_key :: "pyval \<Rightarrow> py_exn + key" where
  "hash_key PNone = Inr KNone"
| "hash_key (PBool b) = Inr (KNum (of_bool b))"
| "hash_key (PInt i) = Inr (KNum (of_int i))"
| "hash_key (PFloat r) = Inr (KNum r)"
| "hash_key (PStr s) = Inr (KStr s)"
| "hash_key (PList xs) = Inl TypeError"
| "hash_key (PDict d) = Inl TypeError"

text \<open>\<^verbatim>\<open>d.get(k)\<close> and \<^verbatim>\<open>d.get(k, default)\<close> on a payload dict.\<close>

definition dict_get :: "pydict \<Rightarrow> string \<Rightarrow> pyval" where
  "dict_get d k = (case map_of d k of None \<Rightarrow> PNone | Some v \<Rightarrow> v)"

definition dict_get_default :: "pydict \<Rightarrow> string \<Rightarrow> pyval \<Rightarrow> pyval" where
  "dict_get_default d k dflt = (case map_of d k of None \<Rightarrow> dflt | Some v \<Rightarrow> v)"

text \<open>\<^verbatim>\<open>s.startswith(p)\<close>.\<close>

definition startswith :: "string \<Rightarrow> string \<Rightarrow> bool" where
  "startswith s p = prefix p s"

text \<open>
  \<^verbatim>\<open>s.replace(old, new)\<close>: every non-overlapping occurrence of \<^verbatim>\<open>old\<close>, found from the left, is
  replaced. With an empty \<^verbatim>\<open>old\<close> (a case the agents never use) Python puts \<^verbatim>\<open>new\<close> before
  every character and at the end.
\<close>

function replace_str :: "string \<Rightarrow> string \<Rightarrow> string \<Rightarrow> string" where
  "replace_str old new s =
     (if old = [] then new @ concat (map (\<lambda>c. c # new) s)
      else if prefix old s then new @ replace_str old new (drop (length old) s)
      else (case s of [] \<Rightarrow> [] | c # cs \<Rightarrow> c # replace_str old new cs))"
  by pat_completeness auto
termination
  by (relation "measure (\<lambda>(old, new, s). length s)") (auto simp: prefix_def)

declare replace_str.simps [simp del]

text \<open>The decimal numeral of a natural number, as \<^verbatim>\<open>f"{n}"\<close> prints it.\<close>

function str_nat :: "nat \<Rightarrow> string" where
  "str_nat n =
     (if n < 10 then [''0123456789'' ! n]
      else str_nat (n div 10) @ [''0123456789'' ! (n mod 10)])"
  by pat_completeness auto
termination
  by (relation "measure (\<lambda>n. n)") auto

declare str_nat.simps [simp del]

section \<open>models/background\_message.py\<close>

record BackgroundMessage =
  message_type :: string
  data :: "pydict option"
  timestamp :: rat
  sender :: string

text \<open>
  Construction of a \<^verbatim>\<open>BackgroundMessage\<close> by keyword arguments; an argument that is left out
  is \<open>None\<close>. \<^verbatim>\<open>message_type\<close> is declared \<^verbatim>\<open>Field(...)\<close>, a required field with no further
  constraint: leaving it out raises pydantic's \<^verbatim>\<open>ValidationError\<close>. \<^verbatim>\<open>data\<close> defaults to
  \<^verbatim>\<open>None\<close>, \<^verbatim>\<open>timestamp\<close> to the reading \<open>now\<close> of \<^verbatim>\<open>time.time\<close>, \<^verbatim>\<open>sender\<close> to \<^verbatim>\<open>"system"\<close>.
  \<open>timestamp_arg\<close> is the float that the \<^verbatim>\<open>timestamp\<close> argument denotes once pydantic has
  converted it to \<^verbatim>\<open>float\<close>.
\<close>

definition BackgroundMessage_init ::
  "rat \<Rightarrow> string option \<Rightarrow> pydict option \<Rightarrow> rat option \<Rightarrow> string option
     \<Rightarrow> py_exn + BackgroundMessage" where
  "BackgroundMessage_init now message_type_arg data_arg timestamp_arg sender_arg =
     (case message_type_arg of
        None \<Rightarrow> Inl ValidationError
      | Some mt \<Rightarrow>
          Inr \<lparr> message_type = mt,
                data = data_arg,
                timestamp = (case timestamp_arg of None \<Rightarrow> now | Some t \<Rightarrow> t),
                sender = (case sender_arg of None \<Rightarrow> ''system'' | Some sd \<Rightarrow> sd) \<rparr>)"

section \<open>interfaces/background\_agent.py\<close>

record BackgroundAgent =
  session_id :: string
  agent_type :: string
  interval :: "rat option"
  subscribed_messages :: "string set"
  is_running :: bool

definition BackgroundAgent_init :: "string \<Rightarrow> string \<Rightarrow> rat option \<Rightarrow> BackgroundAgent" where
  "BackgroundAgent_init sid atype ival =
     \<lparr> session_id = sid,
       agent_type = atype,
       interval = ival,
       subscribed_messages = {},
       is_running = False \<rparr>"

definition subscribe_to ::
  "string \<Rightarrow> 'a BackgroundAgent_scheme \<Rightarrow> 'a BackgroundAgent_scheme" where
  "subscribe_to mt a = a\<lparr> subscribed_messages := insert mt (subscribed_messages a) \<rparr>"

text \<open>Log records: the level of the \<^verbatim>\<open>logger\<close> call and which message it writes.\<close>

datatype level = INFO | WARNING | ERROR

section \<open>agents/example\_agent.py\<close>

text \<open>
  \<^verbatim>\<open>_system_stats\<close> is a dict with the four fixed keys below; \<^verbatim>\<open>active_users\<close> holds a
  Python \<^verbatim>\<open>int\<close>, the other three hold numbers that the message hook only reads.
\<close>

record stats =
  cpu_usage :: rat
  memory_usage :: rat
  uptime :: rat
  active_users :: int

text \<open>The dict as a value, for printing it: only the \<^verbatim>\<open>int\<close> can make its \<^verbatim>\<open>repr\<close> raise.\<close>

definition stats_value :: "stats \<Rightarrow> pyval" where
  "stats_value st =
     PDict [(''cpu_usage'', PFloat (cpu_usage st)),
            (''memory_usage'', PFloat (memory_usage st)),
            (''uptime'', PFloat (uptime st)),
            (''active_users'', PInt (active_users st))]"

record SystemMonitorAgent = BackgroundAgent +
  last_check_time :: rat
  system_stats :: stats

datatype sm_event =
    SM_Processing_message string
  | SM_Status_request_received string
  | SM_Current_system_status stats
  | SM_CPU_usage rat
  | SM_Memory_usage rat
  | SM_System_uptime_hours rat
  | SM_Unknown_resource_type pyval
  | SM_User_action_detected string
  | SM_Error_processing_message string py_exn

type_synonym sm_log = "(level \<times> sm_event) list"

text \<open>
  What a handler does: the log lines it has written, the agent as it has left it, and the
  exception with which it stopped, if it did not return.
\<close>

type_synonym sm_outcome = "sm_log \<times> SystemMonitorAgent \<times> py_exn option"

text \<open>The constructor; \<open>now\<close> is the reading of \<^verbatim>\<open>time.time()\<close>.\<close>

definition SystemMonitorAgent_init :: "string \<Rightarrow> rat \<Rightarrow> SystemMonitorAgent" where
  "SystemMonitorAgent_init sid now =
     (let base = BackgroundAgent_init sid ''system_monitor'' (Some 60);
          base = subscribe_to ''system.status.request'' base;
          base = subscribe_to ''system.resource.request'' base;
          base = subscribe_to ''user.action.*'' base
      in \<lparr> session_id = session_id base,
            agent_type = agent_type base,
            interval = interval base,
            subscribed_messages = subscribed_messages base,
            is_running = is_running base,
            last_check_time = now,
            system_stats = \<lparr> cpu_usage = 0, memory_usage = 0, uptime = 0, active_users = 0 \<rparr> \<rparr>)"

text \<open>The second log line prints the whole dict \<^verbatim>\<open>_system_stats\<close>.\<close>

definition handle_status_request ::
  "interp \<Rightarrow> SystemMonitorAgent \<Rightarrow> BackgroundMessage \<Rightarrow> sm_outcome" where
  "handle_status_request env s m =
     (let lg1 = [(INFO, SM_Status_request_received (sender m))]
      in case fmt env (stats_value (system_stats s)) of
           Some e \<Rightarrow> (lg1, s, Some e)
         | None \<Rightarrow> (lg1 @ [(INFO, SM_Current_system_status (system_stats s))], s, None))"

text \<open>
  In the \<^verbatim>\<open>uptime\<close> branch the logged number is \<^verbatim>\<open>uptime / 3600\<close>, a float division by a
  non-zero constant; the event carries the uptime it is computed from. The last branch
  prints \<^verbatim>\<open>resource_type\<close>, whatever value the payload holds there.
\<close>

definition handle_resource_request ::
  "interp \<Rightarrow> SystemMonitorAgent \<Rightarrow> BackgroundMessage \<Rightarrow> sm_outcome" where
  "handle_resource_request env s m =
     (let resource_type =
            (case data m of None \<Rightarrow> PNone
             | Some d \<Rightarrow> if d \<noteq> [] then dict_get d ''resource_type'' else PNone)
      in case py_eq env resource_type (PStr ''cpu'') of
           Inl e \<Rightarrow> ([], s, Some e)
         | Inr True \<Rightarrow> ([(INFO, SM_CPU_usage (cpu_usage (system_stats s)))], s, None)
         | Inr False \<Rightarrow>
         (case py_eq env resource_type (PStr ''memory'') of
           Inl e \<Rightarrow> ([], s, Some e)
         | Inr True \<Rightarrow> ([(INFO, SM_Memory_usage (memory_usage (system_stats s)))], s, None)
         | Inr False \<Rightarrow>
         (case py_eq env resource_type (PStr ''uptime'') of
           Inl e \<Rightarrow> ([], s, Some e)
         | Inr True \<Rightarrow> ([(INFO, SM_System_uptime_hours (uptime (system_stats s)))], s, None)
         | Inr False \<Rightarrow>
         (case fmt env resource_type of
           Some e \<Rightarrow> ([], s, Some e)
         | None \<Rightarrow> ([(INFO, SM_Unknown_resource_type resource_type)], s, None)))))"

definition handle_user_action :: "SystemMonitorAgent \<Rightarrow> BackgroundMessage \<Rightarrow> sm_outcome" where
  "handle_user_action s m =
     (let action_type = replace_str ''user.action.'' [] (message_type m);
          st = system_stats s
      in ([(INFO, SM_User_action_detected action_type)],
          (if action_type = ''login'' then
             s\<lparr> system_stats := st\<lparr> active_users := active_users st + 1 \<rparr> \<rparr>
           else if action_type = ''logout'' then
             s\<lparr> system_stats := st\<lparr> active_users := max 0 (active_users st - 1) \<rparr> \<rparr>
           else s),
          None))"

text \<open>
  The \<^verbatim>\<open>if\<close>/\<^verbatim>\<open>elif\<close> chain on the message type inside the \<^verbatim>\<open>try\<close> block of
  \<^verbatim>\<open>process_message\<close>.
\<close>

definition SystemMonitorAgent_dispatch ::
  "interp \<Rightarrow> SystemMonitorAgent \<Rightarrow> BackgroundMessage \<Rightarrow> sm_outcome" where
  "SystemMonitorAgent_dispatch env s m =
     (if message_type m = ''system.status.request'' then handle_status_request env s m
      else if message_type m = ''system.resource.request'' then handle_resource_request env s m
      else if startswith (message_type m) ''user.action.'' then handle_user_action s m
      else ([], s, None))"

text \<open>
  The message hook. \<open>Inr\<close> is a normal return with the log lines written and the agent
  afterwards, \<open>Inl\<close> an exception that leaves the hook. The \<^verbatim>\<open>try\<close> block is the first log
  line and the chain; \<^verbatim>\<open>except Exception\<close> catches every exception of \<^typ>\<open>py_exn\<close> and
  writes one error line, with the agent as the handler left it when it raised.
\<close>

definition SystemMonitorAgent_process_message ::
  "interp \<Rightarrow> SystemMonitorAgent \<Rightarrow> BackgroundMessage
     \<Rightarrow> py_exn + sm_log \<times> SystemMonitorAgent" where
  "SystemMonitorAgent_process_message env s m =
     (let lg0 = [(INFO, SM_Processing_message (message_type m))]
      in case SystemMonitorAgent_dispatch env s m of
           (lg, s', None) \<Rightarrow> Inr (lg0 @ lg, s')
         | (lg, s', Some e) \<Rightarrow>
             Inr (lg0 @ lg @ [(ERROR, SM_Error_processing_message (message_type m) e)], s'))"

section \<open>agents/notification\_agent.py\<close>

text \<open>
  A stored notification is a dict with exactly the seven keys \<^verbatim>\<open>id\<close>, \<^verbatim>\<open>title\<close>, \<^verbatim>\<open>message\<close>,
  \<^verbatim>\<open>type\<close>, \<^verbatim>\<open>created_at\<close>, \<^verbatim>\<open>read\<close>, \<^verbatim>\<open>dismissed\<close>: it is built in one place only,
  \<^verbatim>\<open>_create_notification\<close>, and afterwards only \<^verbatim>\<open>read\<close> and \<^verbatim>\<open>dismissed\<close> are assigned, with
  \<^verbatim>\<open>True\<close>. Each stored dict is a fresh object appended to one list once, so no two
  positions of the store alias.
\<close>

record notification =
  n_id :: pyval
  n_title :: pyval
  n_message :: pyval
  n_type :: pyval
  n_created_at :: pyval
  n_read :: bool
  n_dismissed :: bool

record NotificationAgent = BackgroundAgent +
  notifications :: "key \<rightharpoonup> notification list"
  user_sessions :: "key \<rightharpoonup> bool"

datatype na_event =
    NA_Processing_message string
  | NA_Create_missing_data
  | NA_Notification_missing_user_id
  | NA_Created_notification pyval pyval
  | NA_User_active pyval
  | NA_Dismiss_missing_ids
  | NA_Dismissed_notification pyval pyval
  | NA_List_missing_user_id
  | NA_Listed_notifications nat pyval
  | NA_Session_started pyval
  | NA_Pending_notifications pyval nat
  | NA_Session_ended pyval
  | NA_Error_processing_message string py_exn

type_synonym na_log = "(level \<times> na_event) list"

text \<open>
  What a handler does: the log lines it has written, the agent as it has left it, and the
  exception with which it stopped, if it did not return.
\<close>

type_synonym na_outcome = "na_log \<times> NotificationAgent \<times> py_exn option"

definition NotificationAgent_init :: "string \<Rightarrow> NotificationAgent" where
  "NotificationAgent_init sid =
     (let base = BackgroundAgent_init sid ''notification_manager'' None;
          base = subscribe_to ''notification.create'' base;
          base = subscribe_to ''notification.dismiss'' base;
          base = subscribe_to ''notification.list'' base;
          base = subscribe_to ''user.session.*'' base
      in \<lparr> session_id = session_id base,
            agent_type = agent_type base,
            interval = interval base,
            subscribed_messages = subscribed_messages base,
            is_running = is_running base,
            notifications = Map.empty,
            user_sessions = Map.empty \<rparr>)"

text \<open>The periodic hook: its body is \<^verbatim>\<open>pass\<close>.\<close>

definition NotificationAgent_process :: "NotificationAgent \<Rightarrow> NotificationAgent" where
  "NotificationAgent_process s = s"

text \<open>
  \<^verbatim>\<open>if not message.data: ... return\<close> is taken when the payload is \<^verbatim>\<open>None\<close> or the empty
  dict; \<open>payload\<close> gives the dict in the other case.
\<close>

definition payload :: "BackgroundMessage \<Rightarrow> pydict option" where
  "payload m = (case data m of None \<Rightarrow> None | Some d \<Rightarrow> if d = [] then None else Some d)"

text \<open>\<^verbatim>\<open>self._notifications.get(user_id, [])\<close>.\<close>

definition notifications_of :: "NotificationAgent \<Rightarrow> key \<Rightarrow> notification list" where
  "notifications_of s k = (case notifications s k of None \<Rightarrow> [] | Some ns \<Rightarrow> ns)"

text \<open>
  The statements of a handler that can raise are the first use of \<^verbatim>\<open>user_id\<close> as a dict
  key (\<^verbatim>\<open>TypeError\<close> for a list or a dict), which comes before the handler's first
  assignment, the comparisons of \<^verbatim>\<open>_dismiss_notification\<close>, and the log calls that print
  payload values, most of which come after the assignments. \<open>loop_time\<close> is the reading of
  \<^verbatim>\<open>asyncio.get_event_loop().time()\<close>. The defaults passed to \<^verbatim>\<open>get\<close> are evaluated whether or
  not the key is present.
\<close>

definition create_notification ::
  "interp \<Rightarrow> NotificationAgent \<Rightarrow> BackgroundMessage \<Rightarrow> rat \<Rightarrow> na_outcome" where
  "create_notification env s m loop_time =
     (case payload m of
        None \<Rightarrow> ([(WARNING, NA_Create_missing_data)], s, None)
      | Some d \<Rightarrow>
          let user_id = dict_get d ''user_id'' in
          if \<not> truthy user_id then ([(WARNING, NA_Notification_missing_user_id)], s, None)
          else
            (case hash_key user_id of
               Inl e \<Rightarrow> ([], s, Some e)
             | Inr k \<Rightarrow>
                 let notification =
                       \<lparr> n_id = dict_get_default d ''id''
                                  (PStr (''notif_'' @ str_nat (length (notifications_of s k)))),
                         n_title = dict_get_default d ''title'' (PStr ''Notification''),
                         n_message = dict_get_default d ''message'' (PStr []),
                         n_type = dict_get_default d ''type'' (PStr ''info''),
                         n_created_at = dict_get_default d ''created_at'' (PFloat loop_time),
                         n_read = False,
                         n_dismissed = False \<rparr>;
                     store = (if notifications s k = None then (notifications s)(k \<mapsto> [])
                              else notifications s)
                 in (case store k of
                       None \<Rightarrow> ([], s, Some KeyError)
                     | Some ns \<Rightarrow>
                         let s' = s\<lparr> notifications := store(k \<mapsto> ns @ [notification]) \<rparr>
                         in (case fmt_all env [user_id, n_title notification] of
                               Some e \<Rightarrow> ([], s', Some e)
                             | None \<Rightarrow>
                                 let lg1 = [(INFO, NA_Created_notification user_id
                                                     (n_title notification))]
                                 in if (case user_sessions s' k of None \<Rightarrow> False
                                        | Some b \<Rightarrow> b)
                                    then (case fmt_all env [user_id] of
                                            Some e \<Rightarrow> (lg1, s', Some e)
                                          | None \<Rightarrow>
                                              (lg1 @ [(INFO, NA_User_active user_id)], s', None))
                                    else (lg1, s', None)))))"

text \<open>
  The \<^verbatim>\<open>for\<close> loop of \<^verbatim>\<open>_dismiss_notification\<close> over the user's list: the comparison of
  an id can raise, the first match is dismissed and logged, and \<^verbatim>\<open>break\<close> leaves the loop.
\<close>

fun dismiss_loop ::
  "interp \<Rightarrow> pyval \<Rightarrow> pyval \<Rightarrow> notification list
     \<Rightarrow> na_log \<times> notification list \<times> py_exn option" where
  "dismiss_loop env user_id notification_id [] = ([], [], None)"
| "dismiss_loop env user_id notification_id (n # ns) =
     (case py_eq env (n_id n) notification_id of
        Inl e \<Rightarrow> ([], n # ns, Some e)
      | Inr True \<Rightarrow>
          (case fmt_all env [notification_id, user_id] of
             Some e \<Rightarrow> ([], n\<lparr> n_dismissed := True \<rparr> # ns, Some e)
           | None \<Rightarrow>
               ([(INFO, NA_Dismissed_notification notification_id user_id)],
                n\<lparr> n_dismissed := True \<rparr> # ns, None))
      | Inr False \<Rightarrow>
          (case dismiss_loop env user_id notification_id ns of
             (lg, ns', r) \<Rightarrow> (lg, n # ns', r)))"

definition dismiss_notification ::
  "interp \<Rightarrow> NotificationAgent \<Rightarrow> BackgroundMessage \<Rightarrow> na_outcome" where
  "dismiss_notification env s m =
     (case payload m of
        None \<Rightarrow> ([], s, None)
      | Some d \<Rightarrow>
          let user_id = dict_get d ''user_id'';
              notification_id = dict_get d ''notification_id'' in
          if \<not> truthy user_id \<or> \<not> truthy notification_id then
            ([(WARNING, NA_Dismiss_missing_ids)], s, None)
          else
            (case hash_key user_id of
               Inl e \<Rightarrow> ([], s, Some e)
             | Inr k \<Rightarrow>
                 (case notifications s k of
                    None \<Rightarrow> ([], s, None)
                  | Some ns \<Rightarrow>
                      (case dismiss_loop env user_id notification_id ns of
                         (lg, ns', r) \<Rightarrow>
                           (lg, s\<lparr> notifications := (notifications s)(k \<mapsto> ns') \<rparr>, r)))))"

text \<open>
  \<^verbatim>\<open>_list_notifications\<close>: \<^verbatim>\<open>user_notifications\<close> is the stored list itself or, after the
  filter, a new list of references to the stored dicts, so the assignments of the second
  loop write into the store. A reference is the position of the dict in the stored list.
  The log call comes after the loop.
\<close>

definition mark_read :: "nat list \<Rightarrow> notification list \<Rightarrow> notification list" where
  "mark_read refs ns = fold (\<lambda>i ns. ns[i := (ns ! i)\<lparr> n_read := True \<rparr>]) refs ns"

definition list_notifications ::
  "interp \<Rightarrow> NotificationAgent \<Rightarrow> BackgroundMessage \<Rightarrow> na_outcome" where
  "list_notifications env s m =
     (case payload m of
        None \<Rightarrow> ([], s, None)
      | Some d \<Rightarrow>
          let user_id = dict_get d ''user_id'';
              include_dismissed = dict_get_default d ''include_dismissed'' (PBool False) in
          if \<not> truthy user_id then ([(WARNING, NA_List_missing_user_id)], s, None)
          else
            (case hash_key user_id of
               Inl e \<Rightarrow> ([], s, Some e)
             | Inr k \<Rightarrow>
                 let stored = notifications_of s k;
                     user_notifications =
                       (if \<not> truthy include_dismissed
                        then filter (\<lambda>i. \<not> n_dismissed (stored ! i)) [0..<length stored]
                        else [0..<length stored]);
                     s' = (if notifications s k = None then s
                           else s\<lparr> notifications :=
                                    (notifications s)
                                      (k \<mapsto> mark_read user_notifications stored) \<rparr>)
                 in (case fmt_all env [user_id] of
                       Some e \<Rightarrow> ([], s', Some e)
                     | None \<Rightarrow>
                         ([(INFO, NA_Listed_notifications (length user_notifications) user_id)],
                          s', None))))"

definition handle_session_start ::
  "interp \<Rightarrow> NotificationAgent \<Rightarrow> BackgroundMessage \<Rightarrow> na_outcome" where
  "handle_session_start env s m =
     (case payload m of
        None \<Rightarrow> ([], s, None)
      | Some d \<Rightarrow>
          let user_id = dict_get d ''user_id'' in
          if \<not> truthy user_id then ([], s, None)
          else
            (case hash_key user_id of
               Inl e \<Rightarrow> ([], s, Some e)
             | Inr k \<Rightarrow>
                 let s' = s\<lparr> user_sessions := (user_sessions s)(k \<mapsto> True) \<rparr>
                 in (case fmt_all env [user_id] of
                       Some e \<Rightarrow> ([], s', Some e)
                     | None \<Rightarrow>
                         let lg1 = [(INFO, NA_Session_started user_id)];
                             pending_notifications =
                               filter (\<lambda>n. \<not> n_read n \<and> \<not> n_dismissed n)
                                 (notifications_of s' k)
                         in if pending_notifications \<noteq> []
                            then (case fmt_all env [user_id] of
                                    Some e \<Rightarrow> (lg1, s', Some e)
                                  | None \<Rightarrow>
                                      (lg1 @ [(INFO, NA_Pending_notifications user_id
                                                       (length pending_notifications))],
                                       s', None))
                            else (lg1, s', None))))"

definition handle_session_end ::
  "interp \<Rightarrow> NotificationAgent \<Rightarrow> BackgroundMessage \<Rightarrow> na_outcome" where
  "handle_session_end env s m =
     (case payload m of
        None \<Rightarrow> ([], s, None)
      | Some d \<Rightarrow>
          let user_id = dict_get d ''user_id'' in
          if \<not> truthy user_id then ([], s, None)
          else
            (case hash_key user_id of
               Inl e \<Rightarrow> ([], s, Some e)
             | Inr k \<Rightarrow>
                 let s' = s\<lparr> user_sessions := (user_sessions s)(k \<mapsto> False) \<rparr>
                 in (case fmt_all env [user_id] of
                       Some e \<Rightarrow> ([], s', Some e)
                     | None \<Rightarrow> ([(INFO, NA_Session_ended user_id)], s', None))))"

text \<open>The \<^verbatim>\<open>if\<close>/\<^verbatim>\<open>elif\<close> chain inside the \<^verbatim>\<open>try\<close> block of \<^verbatim>\<open>process_message\<close>.\<close>

definition NotificationAgent_dispatch ::
  "interp \<Rightarrow> NotificationAgent \<Rightarrow> BackgroundMessage \<Rightarrow> rat \<Rightarrow> na_outcome" where
  "NotificationAgent_dispatch env s m loop_time =
     (if message_type m = ''notification.create'' then create_notification env s m loop_time
      else if message_type m = ''notification.dismiss'' then dismiss_notification env s m
      else if message_type m = ''notification.list'' then list_notifications env s m
      else if message_type m = ''user.session.start'' then handle_session_start env s m
      else if message_type m = ''user.session.end'' then handle_session_end env s m
      else ([], s, None))"

text \<open>
  The message hook: the first log line, the chain, and \<^verbatim>\<open>except Exception\<close>, which
  catches every exception of \<^typ>\<open>py_exn\<close> and writes one error line, with the agent as the
  handler left it when it raised.
\<close>

definition NotificationAgent_process_message ::
  "interp \<Rightarrow> NotificationAgent \<Rightarrow> BackgroundMessage \<Rightarrow> rat
     \<Rightarrow> py_exn + na_log \<times> NotificationAgent" where
  "NotificationAgent_process_message env s m loop_time =
     (let lg0 = [(INFO, NA_Processing_message (message_type m))]
      in case NotificationAgent_dispatch env s m loop_time of
           (lg, s', None) \<Rightarrow> Inr (lg0 @ lg, s')
         | (lg, s', Some e) \<Rightarrow>
             Inr (lg0 @ lg @ [(ERROR, NA_Error_processing_message (message_type m) e)], s'))"

text \<open>
  The states a \<^verbatim>\<open>NotificationAgent\<close> can be in: the constructed agent, and every agent that
  a call of the periodic hook or a returning call of the message hook leaves behind.
\<close>

inductive reachable :: "NotificationAgent \<Rightarrow> bool" where
  constructed: "reachable (NotificationAgent_init sid)"
| ticked: "reachable s \<Longrightarrow> reachable (NotificationAgent_process s)"
| delivered:
    "reachable s \<Longrightarrow> NotificationAgent_process_message env s m loop_time = Inr (lg, s')
       \<Longrightarrow> reachable s'"

section \<open>Facts about the subscription set\<close>

lemma fold_subscribe_to_eq:
  "fold subscribe_to ps a = a\<lparr> subscribed_messages := subscribed_messages a \<union> set ps \<rparr>"
  by (induction ps arbitrary: a) (auto simp: subscribe_to_def)

section \<open>Facts about comparing and printing payload values\<close>

text \<open>
  A comparison with a \<^verbatim>\<open>str\<close> or between numbers needs no nested call, so it returns.
\<close>

lemma py_eq_str: "py_eq env v (PStr a) = Inr (v = PStr a)"
  by (cases v) (auto simp: py_eq_def)

lemma py_eq_str_left: "py_eq env (PStr a) w = Inr (w = PStr a)"
  by (simp add: py_eq_def)

lemma py_eq_num:
  "num_of v = Some r \<Longrightarrow> py_eq env v w = Inr (num_of w = Some r)"
  by (cases v; cases "num_of w") (auto simp: py_eq_def)

text \<open>
  Printing a \<^verbatim>\<open>str\<close> or a \<^verbatim>\<open>float\<close> never raises; printing an \<^verbatim>\<open>int\<close> raises exactly when it
  has more digits than the limit.
\<close>

lemma fmt_str: "fmt env (PStr a) = None"
  by (simp add: fmt_def)

lemma fmt_float: "fmt env (PFloat r) = None"
  by (simp add: fmt_def)

lemma fmt_int:
  "fmt env (PInt i) =
     (if int_max_str_digits env \<noteq> 0 \<and> 10 ^ int_max_str_digits env \<le> \<bar>i\<bar>
      then Some ValueError else None)"
  by (simp add: fmt_def)

lemma fmt_huge_int:
  "int_max_str_digits env = n \<Longrightarrow> n \<noteq> 0 \<Longrightarrow> fmt env (PInt (10 ^ n)) = Some ValueError"
  by (simp add: fmt_int)


section \<open>Facts about the system monitor's message hook\<close>

lemma replace_logout: "replace_str ''user.action.'' [] ''user.action.logout'' = ''logout''"
  by (simp add: replace_str.simps)

lemma handle_status_request_state: "fst (snd (handle_status_request env s m)) = s"
  by (simp add: handle_status_request_def Let_def split: option.splits)

lemma handle_resource_request_eq:
  "handle_resource_request env s m =
     (let resource_type =
            (case data m of None \<Rightarrow> PNone
             | Some d \<Rightarrow> if d \<noteq> [] then dict_get d ''resource_type'' else PNone)
      in if resource_type = PStr ''cpu'' then
           ([(INFO, SM_CPU_usage (cpu_usage (system_stats s)))], s, None)
         else if resource_type = PStr ''memory'' then
           ([(INFO, SM_Memory_usage (memory_usage (system_stats s)))], s, None)
         else if resource_type = PStr ''uptime'' then
           ([(INFO, SM_System_uptime_hours (uptime (system_stats s)))], s, None)
         else (case fmt env resource_type of
                 Some e \<Rightarrow> ([], s, Some e)
               | None \<Rightarrow> ([(INFO, SM_Unknown_resource_type resource_type)], s, None)))"
  by (simp add: handle_resource_request_def Let_def py_eq_str bool.case_eq_if)

lemma handle_resource_request_log:
  "(INFO, SM_User_action_detected a) \<notin> set (fst (handle_resource_request env s m))"
  by (simp add: handle_resource_request_eq Let_def split: option.splits)

lemma handle_resource_request_state: "fst (snd (handle_resource_request env s m)) = s"
  by (simp add: handle_resource_request_eq Let_def split: option.splits)

lemma handle_user_action_log:
  "fst (handle_user_action s m) =
     [(INFO, SM_User_action_detected (replace_str ''user.action.'' [] (message_type m)))]"
  by (simp add: handle_user_action_def Let_def)

lemma SystemMonitorAgent_process_message_eq:
  "SystemMonitorAgent_process_message env s m =
     Inr ((INFO, SM_Processing_message (message_type m)) #
            fst (SystemMonitorAgent_dispatch env s m) @
            (case snd (snd (SystemMonitorAgent_dispatch env s m)) of
               None \<Rightarrow> []
             | Some e \<Rightarrow> [(ERROR, SM_Error_processing_message (message_type m) e)]),
          fst (snd (SystemMonitorAgent_dispatch env s m)))"
  by (simp add: SystemMonitorAgent_process_message_def split: prod.splits option.splits)


section \<open>Facts about the notification agent's handlers\<close>

lemma NotificationAgent_process_message_eq:
  "NotificationAgent_process_message env s m t =
     Inr ((INFO, NA_Processing_message (message_type m)) #
            fst (NotificationAgent_dispatch env s m t) @
            (case snd (snd (NotificationAgent_dispatch env s m t)) of
               None \<Rightarrow> []
             | Some e \<Rightarrow> [(ERROR, NA_Error_processing_message (message_type m) e)]),
          fst (snd (NotificationAgent_dispatch env s m t)))"
  by (simp add: NotificationAgent_process_message_def split: prod.splits option.splits)

lemma NotificationAgent_process_message_state:
  "NotificationAgent_process_message env s m t = Inr (lg, s')
     \<Longrightarrow> s' = fst (snd (NotificationAgent_dispatch env s m t))"
  by (simp add: NotificationAgent_process_message_eq)

lemma dict_get_missing: "k \<notin> fst ` set d \<Longrightarrow> dict_get d k = PNone"
  using map_of_eq_None_iff [of d k] by (simp add: dict_get_def)

lemma handle_session_start_raises:
  assumes "payload m = Some d" and "truthy (dict_get d ''user_id'')"
    and "hash_key (dict_get d ''user_id'') = Inr k"
    and "fmt env (dict_get d ''user_id'') = Some e"
  shows "handle_session_start env s m =
           ([], s\<lparr> user_sessions := (user_sessions s)(k \<mapsto> True) \<rparr>, Some e)"
  using assms by (simp add: handle_session_start_def Let_def fmt_all_def)

lemma NotificationAgent_init_stores:
  "notifications (NotificationAgent_init sid) = Map.empty"
  "user_sessions (NotificationAgent_init sid) = Map.empty"
  by (simp_all add: NotificationAgent_init_def Let_def)

lemma str_nat_0: "str_nat 0 = ''0''"
  by (simp add: str_nat.simps)

text \<open>
  The handlers store notifications only under a \<^verbatim>\<open>user_id\<close> that passed the truth test, so
  the keys of falsy values (\<^verbatim>\<open>None\<close>, zero, the empty string) never enter the store.
\<close>

lemma truthy_hash_key:
  "truthy u \<Longrightarrow> hash_key u = Inr k \<Longrightarrow> k \<noteq> KNone \<and> k \<noteq> KNum 0 \<and> k \<noteq> KStr []"
  by (cases u) auto

lemma create_notification_falsy_keys:
  assumes "k0 = KNone \<or> k0 = KNum 0 \<or> k0 = KStr []"
  shows "notifications (fst (snd (create_notification env s m t))) k0 = notifications s k0"
  using assms
  by (auto simp: create_notification_def Let_def dest: truthy_hash_key
      split: option.splits if_splits sum.splits)

lemma dismiss_notification_falsy_keys:
  assumes "k0 = KNone \<or> k0 = KNum 0 \<or> k0 = KStr []"
  shows "notifications (fst (snd (dismiss_notification env s m))) k0 = notifications s k0"
  using assms
  by (auto simp: dismiss_notification_def Let_def dest: truthy_hash_key
      split: option.splits if_splits sum.splits prod.splits)

lemma list_notifications_falsy_keys:
  assumes "k0 = KNone \<or> k0 = KNum 0 \<or> k0 = KStr []"
  shows "notifications (fst (snd (list_notifications env s m))) k0 = notifications s k0"
  using assms
  by (auto simp: list_notifications_def Let_def dest: truthy_hash_key
      split: option.splits if_splits sum.splits)

lemma handle_session_start_store:
  "notifications (fst (snd (handle_session_start env s m))) = notifications s"
  by (auto simp: handle_session_start_def Let_def split: option.splits if_splits sum.splits)

lemma handle_session_end_store:
  "notifications (fst (snd (handle_session_end env s m))) = notifications s"
  by (auto simp: handle_session_end_def Let_def split: option.splits if_splits sum.splits)

lemma NotificationAgent_dispatch_falsy_keys:
  assumes "k0 = KNone \<or> k0 = KNum 0 \<or> k0 = KStr []"
  shows "notifications (fst (snd (NotificationAgent_dispatch env s m t))) k0 = notifications s k0"
  using create_notification_falsy_keys [OF assms] dismiss_notification_falsy_keys [OF assms]
    list_notifications_falsy_keys [OF assms]
  by (simp add: NotificationAgent_dispatch_def handle_session_start_store
      handle_session_end_store)

lemma reachable_falsy_keys:
  assumes "reachable s" and "k0 = KNone \<or> k0 = KNum 0 \<or> k0 = KStr []"
  shows "notifications s k0 = None"
  using assms
proof (induction rule: reachable.induct)
  case (constructed sid)
  show ?case by (simp add: NotificationAgent_init_def Let_def)
next
  case (ticked s)
  then show ?case by (simp add: NotificationAgent_process_def)
next
  case (delivered s env m loop_time lg s')
  from delivered.hyps(2) have "s' = fst (snd (NotificationAgent_dispatch env s m loop_time))"
    by (rule NotificationAgent_process_message_state)
  with delivered.IH [OF delivered.prems] delivered.prems show ?case
    by (simp add: NotificationAgent_dispatch_falsy_keys)
qed

text \<open>
  The second loop of \<^verbatim>\<open>_list_notifications\<close>, position by position.
\<close>

lemma length_mark_read: "length (mark_read refs ns) = length ns"
  unfolding mark_read_def by (induction refs arbitrary: ns) auto

lemma mark_read_nth:
  assumes "\<forall>i\<in>set refs. i < length ns" and "j < length ns"
  shows "mark_read refs ns ! j = (if j \<in> set refs then (ns ! j)\<lparr> n_read := True \<rparr> else ns ! j)"
  using assms unfolding mark_read_def
proof (induction refs arbitrary: ns)
  case Nil
  then show ?case by simp
next
  case (Cons r refs)
  let ?ns = "ns[r := (ns ! r)\<lparr> n_read := True \<rparr>]"
  have "\<forall>i\<in>set refs. i < length ?ns" and "j < length ?ns"
    using Cons.prems by simp_all
  from Cons.IH [OF this] Cons.prems show ?case
    by (auto simp: nth_list_update)
qed

lemma mark_read_filter:
  "mark_read (filter (\<lambda>i. Q (ns ! i)) [0..<length ns]) ns
     = map (\<lambda>n. if Q n then n\<lparr> n_read := True \<rparr> else n) ns"
  by (rule nth_equalityI) (simp_all add: length_mark_read mark_read_nth)

lemma mark_read_all:
  "mark_read [0..<length ns] ns = map (\<lambda>n. n\<lparr> n_read := True \<rparr>) ns"
  using mark_read_filter [of "\<lambda>n. True" ns] by simp

lemma list_notifications_truthy:
  assumes "payload m = Some d" and "truthy (dict_get d ''user_id'')"
    and "hash_key (dict_get d ''user_id'') = Inr k"
  shows "fst (snd (list_notifications env s m)) =
           s\<lparr> notifications := (notifications s)(k :=
                  map_option
                    (map (\<lambda>n. if truthy (dict_get_default d ''include_dismissed'' (PBool False))
                                   \<or> \<not> n_dismissed n
                              then n\<lparr> n_read := True \<rparr> else n))
                    (notifications s k)) \<rparr>"
proof (cases "notifications s k")
  case None
  then have "(notifications s)(k := None) = notifications s" by auto
  with None assms show ?thesis
    by (simp add: list_notifications_def Let_def split: option.splits)
next
  case (Some ns)
  then show ?thesis
    using assms mark_read_filter [of "\<lambda>n. \<not> n_dismissed n" ns]
    by (simp add: list_notifications_def Let_def notifications_of_def mark_read_all
        split: option.splits)
qed

text \<open>
  The loop of \<^verbatim>\<open>_dismiss_notification\<close>: it leaves the list as it was unless a comparison
  returns \<^verbatim>\<open>True\<close> after all earlier ones returned \<^verbatim>\<open>False\<close>, and then it dismisses that
  notification, whether or not the log call after the assignment raises.
\<close>

lemma dismiss_loop_no_match:
  "\<forall>n\<in>set ns. py_eq env (n_id n) i \<noteq> Inr True
     \<Longrightarrow> fst (snd (dismiss_loop env u i ns)) = ns"
  by (induction ns) (auto split: sum.splits bool.splits prod.splits)

lemma dismiss_loop_first_match:
  assumes "j < length ns" and "py_eq env (n_id (ns ! j)) i = Inr True"
    and "\<forall>j'<j. py_eq env (n_id (ns ! j')) i = Inr False"
  shows "fst (snd (dismiss_loop env u i ns)) = ns[j := (ns ! j)\<lparr> n_dismissed := True \<rparr>]"
  using assms
proof (induction ns arbitrary: j)
  case Nil
  then show ?case by simp
next
  case (Cons n ns)
  show ?case
  proof (cases j)
    case 0
    with Cons.prems show ?thesis by (simp split: option.splits)
  next
    case (Suc j0)
    with Cons.prems have head: "py_eq env (n_id n) i = Inr False" by auto
    have "j0 < length ns" and "py_eq env (n_id (ns ! j0)) i = Inr True"
      using Cons.prems Suc by simp_all
    moreover have "\<forall>j'<j0. py_eq env (n_id (ns ! j')) i = Inr False"
    proof (intro allI impI)
      fix j' assume "j' < j0"
      then have "Suc j' < j" using Suc by simp
      with Cons.prems(3) have "py_eq env (n_id ((n # ns) ! Suc j')) i = Inr False" by blast
      then show "py_eq env (n_id (ns ! j')) i = Inr False" by simp
    qed
    ultimately have "fst (snd (dismiss_loop env u i ns))
        = ns[j0 := (ns ! j0)\<lparr> n_dismissed := True \<rparr>]"
      by (rule Cons.IH)
    with head Suc show ?thesis by (auto split: prod.splits)
  qed
qed

lemma first_match_exists:
  assumes "\<exists>n\<in>set ns. P n"
  shows "\<exists>j<length ns. P (ns ! j) \<and> (\<forall>j'<j. \<not> P (ns ! j'))"
  using assms
proof (induction ns)
  case Nil
  then show ?case by simp
next
  case (Cons n ns)
  show ?case
  proof (cases "P n")
    case True
    then have "0 < length (n # ns) \<and> P ((n # ns) ! 0) \<and> (\<forall>j'<0. \<not> P ((n # ns) ! j'))"
      by simp
    then show ?thesis by blast
  next
    case False
    with Cons.prems have "\<exists>n\<in>set ns. P n" by auto
    from Cons.IH [OF this] obtain j where j: "j < length ns" "P (ns ! j)"
      "\<forall>j'<j. \<not> P (ns ! j')" by blast
    have "\<forall>j'<Suc j. \<not> P ((n # ns) ! j')"
    proof (intro allI impI)
      fix j' assume "j' < Suc j"
      then show "\<not> P ((n # ns) ! j')"
        using False j(3) by (cases j') auto
    qed
    with j(1,2) have "Suc j < length (n # ns) \<and> P ((n # ns) ! Suc j)
        \<and> (\<forall>j'<Suc j. \<not> P ((n # ns) ! j'))" by simp
    then show ?thesis by blast
  qed
qed

lemma dismiss_loop_state:
  "fst (snd (dismiss_loop env u i ns)) = ns
   \<or> (\<exists>j<length ns. py_eq env (n_id (ns ! j)) i = Inr True
         \<and> (\<forall>j'<j. py_eq env (n_id (ns ! j')) i = Inr False))"
proof (cases "\<exists>n\<in>set ns. py_eq env (n_id n) i \<noteq> Inr False")
  case False
  then have "\<forall>n\<in>set ns. py_eq env (n_id n) i \<noteq> Inr True" by auto
  then show ?thesis by (simp add: dismiss_loop_no_match)
next
  case True
  from first_match_exists [of ns "\<lambda>n. py_eq env (n_id n) i \<noteq> Inr False", OF True]
  obtain j where j: "j < length ns" "py_eq env (n_id (ns ! j)) i \<noteq> Inr False"
    "\<forall>j'<j. py_eq env (n_id (ns ! j')) i = Inr False" by auto
  show ?thesis
  proof (cases "py_eq env (n_id (ns ! j)) i")
    case (Inr b)
    with j(2) have "py_eq env (n_id (ns ! j)) i = Inr True" by (cases b) auto
    with j(1,3) show ?thesis by blast
  next
    case (Inl e)
    have "fst (snd (dismiss_loop env u i ns)) = ns"
      using j(1,3) Inl
    proof (induction ns arbitrary: j)
      case Nil
      then show ?case by simp
    next
      case (Cons n ns)
      show ?case
      proof (cases j)
        case 0
        with Cons.prems show ?thesis by simp
      next
        case (Suc j0)
        with Cons.prems have head: "py_eq env (n_id n) i = Inr False" by auto
        have "j0 < length ns" using Cons.prems Suc by simp
        moreover have "\<forall>j'<j0. py_eq env (n_id (ns ! j')) i = Inr False"
        proof (intro allI impI)
          fix j' assume "j' < j0"
          then have "Suc j' < j" using Suc by simp
          with Cons.prems(2) have "py_eq env (n_id ((n # ns) ! Suc j')) i = Inr False" by blast
          then show "py_eq env (n_id (ns ! j')) i = Inr False" by simp
        qed
        moreover have "py_eq env (n_id (ns ! j0)) i = Inl e"
          using Cons.prems(3) Suc by simp
        ultimately have "fst (snd (dismiss_loop env u i ns)) = ns" by (rule Cons.IH)
        with head show ?thesis by (auto split: prod.splits)
      qed
    qed
    then show ?thesis by simp
  qed
qed

lemma dismiss_notification_guarded:
  assumes "payload m = None \<or> (\<exists>d. payload m = Some d \<and>
             (\<not> truthy (dict_get d ''user_id'') \<or> \<not> truthy (dict_get d ''notification_id'')))"
  shows "fst (snd (dismiss_notification env s m)) = s"
  using assms by (auto simp: dismiss_notification_def Let_def)

lemma dismiss_notification_unhashable:
  assumes "payload m = Some d" and "hash_key (dict_get d ''user_id'') = Inl e"
  shows "fst (snd (dismiss_notification env s m)) = s"
  using assms by (simp add: dismiss_notification_def Let_def)

lemma dismiss_notification_loop:
  assumes "payload m = Some d" and "truthy (dict_get d ''user_id'')"
    and "truthy (dict_get d ''notification_id'')"
    and "hash_key (dict_get d ''user_id'') = Inr k"
    and "notifications s k = Some ns"
  shows "fst (snd (dismiss_notification env s m)) =
           s\<lparr> notifications := (notifications s)
                 (k \<mapsto> fst (snd (dismiss_loop env (dict_get d ''user_id'')
                                    (dict_get d ''notification_id'') ns))) \<rparr>"
  using assms by (simp add: dismiss_notification_def Let_def split: prod.splits)

lemma dismiss_notification_no_list:
  assumes "payload m = Some d" and "hash_key (dict_get d ''user_id'') = Inr k"
    and "notifications s k = None"
  shows "fst (snd (dismiss_notification env s m)) = s"
  using assms by (simp add: dismiss_notification_def Let_def)


section \<open>The claims\<close>

text \<open>
  C1, as stated, fails: \<^verbatim>\<open>BackgroundMessage(message_type="")\<close> is not rejected. The field is
  declared \<^verbatim>\<open>Field(...)\<close> with no length constraint, so the call returns a message whose
  \<^verbatim>\<open>message_type\<close> is the empty string.
\<close>

theorem BackgroundMessage_empty_type_accepted:
  "BackgroundMessage_init 0 (Some []) None None None
     = Inr \<lparr> message_type = [], data = None, timestamp = 0, sender = ''system'' \<rparr>"
  by (simp add: BackgroundMessage_init_def)

text \<open>
  C1, amended: \<^verbatim>\<open>message_type\<close> is a required field. Constructing a message without it is
  rejected with a validation error; constructing it with any string, the empty string
  included, succeeds, and the \<^verbatim>\<open>message_type\<close> of the message is the string given.
\<close>

theorem BackgroundMessage_type_as_given:
  "BackgroundMessage_init now None d t sd = Inl ValidationError
   \<and> (\<exists>m. BackgroundMessage_init now (Some mt) d t sd = Inr m \<and> message_type m = mt)"
  by (simp add: BackgroundMessage_init_def)

text \<open>
  C2: the message hook of \<^verbatim>\<open>SystemMonitorAgent\<close> takes its user-action branch exactly when
  the message type starts with \<^verbatim>\<open>"user.action."\<close>: the chain hands the message to
  \<^verbatim>\<open>_handle_user_action\<close>, and the hook writes the line "User action detected", if and only
  if the type has that prefix. So \<^verbatim>\<open>"user.action.login"\<close> and \<^verbatim>\<open>"user.action.logout"\<close>
  reach the branch, while for \<^verbatim>\<open>"user.action"\<close> and \<^verbatim>\<open>"user.actionx.foo"\<close> no branch is taken.
\<close>

theorem user_action_branch_iff_prefix:
  "(SystemMonitorAgent_dispatch env s m = handle_user_action s m
      \<longleftrightarrow> startswith (message_type m) ''user.action.'')
   \<and> (\<exists>lg s'. SystemMonitorAgent_process_message env s m = Inr (lg, s') \<and>
         ((\<exists>a. (INFO, SM_User_action_detected a) \<in> set lg)
            \<longleftrightarrow> startswith (message_type m) ''user.action.''))
   \<and> startswith (message_type m) ''user.action.'' = prefix ''user.action.'' (message_type m)
   \<and> SystemMonitorAgent_dispatch env s (m\<lparr> message_type := ''user.action.login'' \<rparr>)
       = handle_user_action s (m\<lparr> message_type := ''user.action.login'' \<rparr>)
   \<and> SystemMonitorAgent_dispatch env s (m\<lparr> message_type := ''user.action.logout'' \<rparr>)
       = handle_user_action s (m\<lparr> message_type := ''user.action.logout'' \<rparr>)
   \<and> SystemMonitorAgent_dispatch env s (m\<lparr> message_type := ''user.action'' \<rparr>) = ([], s, None)
   \<and> SystemMonitorAgent_dispatch env s (m\<lparr> message_type := ''user.actionx.foo'' \<rparr>)
       = ([], s, None)"
proof -
  have nst: "\<not> startswith ''system.status.request'' ''user.action.''"
    and nrs: "\<not> startswith ''system.resource.request'' ''user.action.''"
    by (simp_all add: startswith_def)
  have ua: "(INFO, SM_User_action_detected (replace_str ''user.action.'' [] (message_type m)))
              \<in> set (fst (handle_user_action s m))"
    by (simp add: handle_user_action_log)
  have st: "(INFO, SM_User_action_detected a) \<notin> set (fst (handle_status_request env s m))" for a
    by (simp add: handle_status_request_def Let_def split: option.splits)
  have a: "SystemMonitorAgent_dispatch env s m = handle_user_action s m
      \<longleftrightarrow> startswith (message_type m) ''user.action.''"
  proof (cases "message_type m = ''system.status.request''")
    case True
    from ua st have "handle_status_request env s m \<noteq> handle_user_action s m" by metis
    with True nst show ?thesis by (simp add: SystemMonitorAgent_dispatch_def)
  next
    case ns: False
    show ?thesis
    proof (cases "message_type m = ''system.resource.request''")
      case True
      from ua handle_resource_request_log
      have "handle_resource_request env s m \<noteq> handle_user_action s m" by metis
      with True ns nrs show ?thesis by (simp add: SystemMonitorAgent_dispatch_def)
    next
      case False
      have "fst (handle_user_action s m) \<noteq> []" by (simp add: handle_user_action_log)
      then have "handle_user_action s m \<noteq> ([], s, None)" by auto
      with False ns show ?thesis by (auto simp: SystemMonitorAgent_dispatch_def)
    qed
  qed
  have b: "(\<exists>a. (INFO, SM_User_action_detected a) \<in> set (fst (SystemMonitorAgent_dispatch env s m)))
            \<longleftrightarrow> startswith (message_type m) ''user.action.''"
    using nst nrs st handle_resource_request_log [of _ env s m]
    by (auto simp: SystemMonitorAgent_dispatch_def handle_user_action_log)
  have c: "\<exists>lg s'. SystemMonitorAgent_process_message env s m = Inr (lg, s') \<and>
         ((\<exists>a. (INFO, SM_User_action_detected a) \<in> set lg)
            \<longleftrightarrow> startswith (message_type m) ''user.action.'')"
    unfolding SystemMonitorAgent_process_message_eq
    using b by (auto split: option.splits)
  have d: "SystemMonitorAgent_dispatch env s (m\<lparr> message_type := ''user.action.login'' \<rparr>)
       = handle_user_action s (m\<lparr> message_type := ''user.action.login'' \<rparr>)"
    "SystemMonitorAgent_dispatch env s (m\<lparr> message_type := ''user.action.logout'' \<rparr>)
       = handle_user_action s (m\<lparr> message_type := ''user.action.logout'' \<rparr>)"
    "SystemMonitorAgent_dispatch env s (m\<lparr> message_type := ''user.action'' \<rparr>) = ([], s, None)"
    "SystemMonitorAgent_dispatch env s (m\<lparr> message_type := ''user.actionx.foo'' \<rparr>)
       = ([], s, None)"
    by (simp_all add: SystemMonitorAgent_dispatch_def startswith_def)
  show ?thesis using a c d by (simp add: startswith_def)
qed

text \<open>
  C4: the message hooks contain their faults. For every interpreter limit, agent state
  and message, \<^verbatim>\<open>process_message\<close> of \<^verbatim>\<open>SystemMonitorAgent\<close> and of \<^verbatim>\<open>NotificationAgent\<close>
  returns normally. Whenever a handler raises, after whatever log lines and assignments it
  has made, the hook catches the exception: it returns, the error line follows the lines
  written so far, and the agent is as the handler left it. The three cases evaluated after
  the theorem are a \<^verbatim>\<open>ValueError\<close> from printing an \<^verbatim>\<open>int\<close> of 4301 digits in the system
  monitor, the same error in \<^verbatim>\<open>_handle_session_start\<close> after \<^verbatim>\<open>_user_sessions\<close> was written,
  and a \<^verbatim>\<open>TypeError\<close> from a list used as \<^verbatim>\<open>user_id\<close>.
\<close>

theorem hooks_contain_faults:
  "(\<exists>lg sm'. SystemMonitorAgent_process_message env sm m = Inr (lg, sm'))
   \<and> (\<exists>lg na'. NotificationAgent_process_message env na m t = Inr (lg, na'))
   \<and> (\<forall>lg sm' e. SystemMonitorAgent_dispatch env sm m = (lg, sm', Some e) \<longrightarrow>
          SystemMonitorAgent_process_message env sm m =
            Inr ((INFO, SM_Processing_message (message_type m)) # lg @
                   [(ERROR, SM_Error_processing_message (message_type m) e)], sm'))
   \<and> (\<forall>lg na' e. NotificationAgent_dispatch env na m t = (lg, na', Some e) \<longrightarrow>
          NotificationAgent_process_message env na m t =
            Inr ((INFO, NA_Processing_message (message_type m)) # lg @
                   [(ERROR, NA_Error_processing_message (message_type m) e)], na'))"
  by (simp add: SystemMonitorAgent_process_message_eq NotificationAgent_process_message_eq)

theorem hooks_contain_faults_witness:
  "SystemMonitorAgent_dispatch cpython_defaults (SystemMonitorAgent_init ''s'' 0)
       \<lparr> message_type = ''system.resource.request'',
         data = Some [(''resource_type'', PInt (10 ^ 4300))], timestamp = 0,
         sender = ''system'' \<rparr>
     = ([], SystemMonitorAgent_init ''s'' 0, Some ValueError)
   \<and> SystemMonitorAgent_process_message cpython_defaults (SystemMonitorAgent_init ''s'' 0)
       \<lparr> message_type = ''system.resource.request'',
         data = Some [(''resource_type'', PInt (10 ^ 4300))], timestamp = 0,
         sender = ''system'' \<rparr>
     = Inr ([(INFO, SM_Processing_message ''system.resource.request''),
             (ERROR, SM_Error_processing_message ''system.resource.request'' ValueError)],
            SystemMonitorAgent_init ''s'' 0)
   \<and> NotificationAgent_dispatch cpython_defaults (NotificationAgent_init ''s'')
       \<lparr> message_type = ''user.session.start'',
         data = Some [(''user_id'', PInt (10 ^ 4300))], timestamp = 0, sender = ''system'' \<rparr> 0
     = ([], NotificationAgent_init ''s''
              \<lparr> user_sessions := [KNum (of_int (10 ^ 4300)) \<mapsto> True] \<rparr>, Some ValueError)
   \<and> NotificationAgent_process_message cpython_defaults (NotificationAgent_init ''s'')
       \<lparr> message_type = ''user.session.start'',
         data = Some [(''user_id'', PInt (10 ^ 4300))], timestamp = 0, sender = ''system'' \<rparr> 0
     = Inr ([(INFO, NA_Processing_message ''user.session.start''),
             (ERROR, NA_Error_processing_message ''user.session.start'' ValueError)],
            NotificationAgent_init ''s''
              \<lparr> user_sessions := [KNum (of_int (10 ^ 4300)) \<mapsto> True] \<rparr>)
   \<and> NotificationAgent_dispatch cpython_defaults (NotificationAgent_init ''s'')
       \<lparr> message_type = ''notification.create'',
         data = Some [(''user_id'', PList [PInt 1])], timestamp = 0, sender = ''system'' \<rparr> 0
     = ([], NotificationAgent_init ''s'', Some TypeError)
   \<and> NotificationAgent_process_message cpython_defaults (NotificationAgent_init ''s'')
       \<lparr> message_type = ''notification.create'',
         data = Some [(''user_id'', PList [PInt 1])], timestamp = 0, sender = ''system'' \<rparr> 0
     = Inr ([(INFO, NA_Processing_message ''notification.create''),
             (ERROR, NA_Error_processing_message ''notification.create'' TypeError)],
            NotificationAgent_init ''s'')"
proof -
  let ?sm = "SystemMonitorAgent_init ''s'' 0"
  let ?na = "NotificationAgent_init ''s''"
  let ?m1 = "\<lparr> message_type = ''system.resource.request'',
         data = Some [(''resource_type'', PInt (10 ^ 4300))], timestamp = 0,
         sender = ''system'' \<rparr>"
  let ?m2 = "\<lparr> message_type = ''user.session.start'',
         data = Some [(''user_id'', PInt (10 ^ 4300))], timestamp = 0, sender = ''system'' \<rparr>"
  let ?m3 = "\<lparr> message_type = ''notification.create'',
         data = Some [(''user_id'', PList [PInt 1])], timestamp = 0, sender = ''system'' \<rparr>"
  have big: "fmt cpython_defaults (PInt (10 ^ 4300)) = Some ValueError"
    by (rule fmt_huge_int) (simp_all add: cpython_defaults_def)
  have nz: "(10::int) ^ 4300 \<noteq> 0"
    by (rule power_not_zero) simp
  have d1: "SystemMonitorAgent_dispatch cpython_defaults ?sm ?m1 = ([], ?sm, Some ValueError)"
    using big
    by (simp add: SystemMonitorAgent_dispatch_def handle_resource_request_eq dict_get_def
        del: power_numeral)
  have d2: "NotificationAgent_dispatch cpython_defaults ?na ?m2 0
      = ([], ?na\<lparr> user_sessions := [KNum (of_int (10 ^ 4300)) \<mapsto> True] \<rparr>, Some ValueError)"
  proof -
    have "handle_session_start cpython_defaults ?na ?m2
        = ([], ?na\<lparr> user_sessions := (user_sessions ?na)(KNum (of_int (10 ^ 4300)) \<mapsto> True) \<rparr>,
           Some ValueError)"
      using big nz
      by (intro handle_session_start_raises [where d = "[(''user_id'', PInt (10 ^ 4300))]"])
        (simp_all add: payload_def dict_get_def del: power_numeral of_int_power)
    moreover have "user_sessions ?na = Map.empty"
      by (simp add: NotificationAgent_init_def Let_def)
    ultimately show ?thesis
      by (simp add: NotificationAgent_dispatch_def del: power_numeral of_int_power)
  qed
  have d3: "NotificationAgent_dispatch cpython_defaults ?na ?m3 0 = ([], ?na, Some TypeError)"
    by (simp add: NotificationAgent_dispatch_def create_notification_def payload_def
        dict_get_def)
  note t1 = hooks_contain_faults [of cpython_defaults ?sm ?m1 ?na 0]
  note t2 = hooks_contain_faults [of cpython_defaults ?sm ?m2 ?na 0]
  note t3 = hooks_contain_faults [of cpython_defaults ?sm ?m3 ?na 0]
  from t1 d1 have p1: "SystemMonitorAgent_process_message cpython_defaults ?sm ?m1
     = Inr ([(INFO, SM_Processing_message ''system.resource.request''),
             (ERROR, SM_Error_processing_message ''system.resource.request'' ValueError)], ?sm)"
    by (simp del: power_numeral of_int_power)
  from t2 d2 have p2: "NotificationAgent_process_message cpython_defaults ?na ?m2 0
     = Inr ([(INFO, NA_Processing_message ''user.session.start''),
             (ERROR, NA_Error_processing_message ''user.session.start'' ValueError)],
            ?na\<lparr> user_sessions := [KNum (of_int (10 ^ 4300)) \<mapsto> True] \<rparr>)"
    by (simp del: power_numeral of_int_power)
  from t3 d3 have p3: "NotificationAgent_process_message cpython_defaults ?na ?m3 0
     = Inr ([(INFO, NA_Processing_message ''notification.create''),
             (ERROR, NA_Error_processing_message ''notification.create'' TypeError)], ?na)"
    by simp
  from d1 p1 d2 p2 d3 p3 show ?thesis by (intro conjI)
qed

text \<open>
  C5: a \<^verbatim>\<open>"notification.create"\<close> message whose \<^verbatim>\<open>data\<close> is \<^verbatim>\<open>None\<close> or has no
  \<^verbatim>\<open>"user_id"\<close> key leaves the notification agent, and so its store \<^verbatim>\<open>_notifications\<close>,
  exactly as it was: no notification is created and no user entry is added.
\<close>

theorem malformed_create_leaves_store_unchanged:
  assumes "message_type m = ''notification.create''"
    and "data m = None \<or> (\<exists>d. data m = Some d \<and> ''user_id'' \<notin> fst ` set d)"
  shows "(\<exists>lg. create_notification env s m t = (lg, s, None))
         \<and> (\<exists>lg s'. NotificationAgent_process_message env s m t = Inr (lg, s')
               \<and> s' = s \<and> notifications s' = notifications s)"
proof -
  have c: "\<exists>lg. create_notification env s m t = (lg, s, None)"
  proof (cases "payload m")
    case None
    then show ?thesis by (simp add: create_notification_def)
  next
    case (Some d)
    then have "data m = Some d"
      by (auto simp: payload_def split: option.splits if_splits)
    with assms(2) have "''user_id'' \<notin> fst ` set d" by auto
    then have "dict_get d ''user_id'' = PNone" by (rule dict_get_missing)
    with Some show ?thesis by (simp add: create_notification_def)
  qed
  then show ?thesis
    using assms(1)
    by (auto simp: NotificationAgent_process_message_def NotificationAgent_dispatch_def)
qed

theorem malformed_create_leaves_store_unchanged_witness:
  "(\<exists>lg. NotificationAgent_process_message cpython_defaults (NotificationAgent_init ''s'')
       \<lparr> message_type = ''notification.create'', data = None, timestamp = 0,
         sender = ''system'' \<rparr> 0 = Inr (lg, NotificationAgent_init ''s''))
   \<and> (\<exists>lg. NotificationAgent_process_message cpython_defaults (NotificationAgent_init ''s'')
       \<lparr> message_type = ''notification.create'', data = Some [(''title'', PStr ''Hello'')],
         timestamp = 0, sender = ''system'' \<rparr> 0 = Inr (lg, NotificationAgent_init ''s''))"
proof -
  let ?s = "NotificationAgent_init ''s''"
  let ?m1 = "\<lparr> message_type = ''notification.create'', data = None, timestamp = 0,
         sender = ''system'' \<rparr>"
  let ?m2 = "\<lparr> message_type = ''notification.create'',
         data = Some [(''title'', PStr ''Hello'')], timestamp = 0, sender = ''system'' \<rparr>"
  have "\<exists>lg. NotificationAgent_process_message cpython_defaults ?s ?m1 0 = Inr (lg, ?s)"
    using malformed_create_leaves_store_unchanged [of ?m1 cpython_defaults ?s 0] by simp
  moreover have "\<exists>lg. NotificationAgent_process_message cpython_defaults ?s ?m2 0 = Inr (lg, ?s)"
    using malformed_create_leaves_store_unchanged [of ?m2 cpython_defaults ?s 0] by simp
  ultimately show ?thesis by blast
qed

text \<open>
  C6: the subscriptions of an agent form a set. After any sequence \<open>ps\<close> of
  \<^verbatim>\<open>subscribe_to\<close> calls on a freshly initialised agent, \<^verbatim>\<open>subscribed_messages\<close> is the set of
  the patterns passed (on any agent: the former set joined with it). Subscribing to a
  pattern that is already present changes nothing, subscribing twice is subscribing once,
  and two call sequences that are permutations of each other, or that merely pass the same
  patterns any number of times, leave the agent in the same state.
\<close>

theorem subscriptions_form_a_set:
  "subscribed_messages (fold subscribe_to ps (BackgroundAgent_init sid atype ival)) = set ps
   \<and> subscribed_messages (fold subscribe_to ps a) = subscribed_messages a \<union> set ps
   \<and> (p \<in> subscribed_messages a \<longrightarrow> subscribe_to p a = a)
   \<and> subscribe_to p (subscribe_to p a) = subscribe_to p a
   \<and> (mset ps = mset qs \<longrightarrow> fold subscribe_to ps a = fold subscribe_to qs a)
   \<and> (set ps = set qs \<longrightarrow> fold subscribe_to ps a = fold subscribe_to qs a)"
proof -
  have "mset ps = mset qs \<Longrightarrow> set ps = set qs"
    by (metis set_mset_mset)
  then show ?thesis
    by (auto simp: fold_subscribe_to_eq BackgroundAgent_init_def subscribe_to_def insert_absorb)
qed

theorem subscriptions_form_a_set_witness:
  "subscribed_messages (fold subscribe_to [''a.*'', ''b'', ''a.*'']
       (BackgroundAgent_init ''s'' ''t'' None)) = {''a.*'', ''b''}
   \<and> ''b'' \<in> subscribed_messages (subscribe_to ''b'' (BackgroundAgent_init ''s'' ''t'' None))
   \<and> subscribe_to ''b'' (subscribe_to ''b'' (BackgroundAgent_init ''s'' ''t'' None))
       = subscribe_to ''b'' (BackgroundAgent_init ''s'' ''t'' None)
   \<and> mset [''a.*'', ''b''] = mset [''b'', ''a.*'']
   \<and> set [''a.*'', ''b'', ''a.*''] = set [''b'', ''a.*'']
   \<and> fold subscribe_to [''a.*'', ''b''] (BackgroundAgent_init ''s'' ''t'' None)
       = fold subscribe_to [''b'', ''a.*''] (BackgroundAgent_init ''s'' ''t'' None)
   \<and> fold subscribe_to [''a.*'', ''b'', ''a.*''] (BackgroundAgent_init ''s'' ''t'' None)
       = fold subscribe_to [''b'', ''a.*''] (BackgroundAgent_init ''s'' ''t'' None)"
proof -
  let ?a = "BackgroundAgent_init ''s'' ''t'' None"
  have m: "mset [''a.*'', ''b''] = mset [''b'', ''a.*'']" by simp
  have s: "set [''a.*'', ''b'', ''a.*''] = set [''b'', ''a.*'']" by auto
  have b: "''b'' \<in> subscribed_messages (subscribe_to ''b'' ?a)"
    by (simp add: subscribe_to_def)
  note t1 = subscriptions_form_a_set [of "[''a.*'', ''b'', ''a.*'']" "''s''" "''t''" None
      "subscribe_to ''b'' ?a" "''b''" "[''b'', ''a.*'']"]
  note t2 = subscriptions_form_a_set [of "[''a.*'', ''b'']" "''s''" "''t''" None
      ?a "''b''" "[''b'', ''a.*'']"]
  note t3 = subscriptions_form_a_set [of "[''a.*'', ''b'', ''a.*'']" "''s''" "''t''" None
      ?a "''b''" "[''b'', ''a.*'']"]
  from t1 b have i: "subscribe_to ''b'' (subscribe_to ''b'' ?a) = subscribe_to ''b'' ?a"
    by blast
  from t2 m have p: "fold subscribe_to [''a.*'', ''b''] ?a = fold subscribe_to [''b'', ''a.*''] ?a"
    by blast
  from t3 s have q:
    "fold subscribe_to [''a.*'', ''b'', ''a.*''] ?a = fold subscribe_to [''b'', ''a.*''] ?a"
    by blast
  from t3 have r:
    "subscribed_messages (fold subscribe_to [''a.*'', ''b'', ''a.*''] ?a) = {''a.*'', ''b''}"
    by auto
  show ?thesis using m s b i p q r by blast
qed

text \<open>
  C7: \<^verbatim>\<open>NotificationAgent\<close> is constructed with \<^verbatim>\<open>interval = None\<close>, and its periodic hook
  \<^verbatim>\<open>process\<close> returns the agent with every field as it was.
\<close>

theorem NotificationAgent_has_no_periodic_behaviour:
  "interval (NotificationAgent_init sid) = None \<and> NotificationAgent_process s = s"
  by (simp add: NotificationAgent_init_def NotificationAgent_process_def
      BackgroundAgent_init_def subscribe_to_def)

text \<open>
  C8: the active-user count never becomes negative. The message hook of
  \<^verbatim>\<open>SystemMonitorAgent\<close> always returns; if \<^verbatim>\<open>_system_stats["active_users"]\<close> was at least 0
  before, it is at least 0 afterwards; and \<^verbatim>\<open>"user.action.logout"\<close> sets it to the maximum of
  0 and the count minus one.
\<close>

theorem active_users_never_negative:
  "\<exists>lg s'. SystemMonitorAgent_process_message env s m = Inr (lg, s')
      \<and> (0 \<le> active_users (system_stats s) \<longrightarrow> 0 \<le> active_users (system_stats s'))
      \<and> (message_type m = ''user.action.logout'' \<longrightarrow>
            active_users (system_stats s') = max 0 (active_users (system_stats s) - 1))"
  unfolding SystemMonitorAgent_process_message_eq
  by (simp add: SystemMonitorAgent_dispatch_def handle_status_request_state
      handle_resource_request_state handle_user_action_def Let_def startswith_def
      replace_logout)

theorem active_users_never_negative_witness:
  "0 \<le> active_users (system_stats (SystemMonitorAgent_init ''s'' 0))
   \<and> (\<exists>lg s'. SystemMonitorAgent_process_message cpython_defaults
          (SystemMonitorAgent_init ''s'' 0)
          \<lparr> message_type = ''user.action.logout'', data = None, timestamp = 0,
            sender = ''system'' \<rparr> = Inr (lg, s')
        \<and> 0 \<le> active_users (system_stats s')
        \<and> active_users (system_stats s') = 0)"
proof -
  let ?s = "SystemMonitorAgent_init ''s'' 0"
  let ?m = "\<lparr> message_type = ''user.action.logout'', data = None, timestamp = 0,
            sender = ''system'' \<rparr>"
  have z: "active_users (system_stats ?s) = 0"
    by (simp add: SystemMonitorAgent_init_def Let_def)
  from active_users_never_negative [of cpython_defaults ?s ?m] z show ?thesis
    by auto
qed

text \<open>
  C9, as stated, fails: the guard \<^verbatim>\<open>if not user_id or not notification_id\<close> returns before
  the loop. A create message with the explicit \<^verbatim>\<open>id\<close> 0 stores a notification with that id;
  a dismiss message for the same user with \<^verbatim>\<open>notification_id\<close> 0 then only writes the
  warning, and the notification, whose id equals 0, stays undismissed.
\<close>

theorem dismiss_falsy_id_dismisses_nothing:
  "NotificationAgent_process_message cpython_defaults (NotificationAgent_init ''s'')
       \<lparr> message_type = ''notification.create'',
         data = Some [(''user_id'', PStr ''u''), (''id'', PInt 0)],
         timestamp = 0, sender = ''system'' \<rparr> 1
     = Inr ([(INFO, NA_Processing_message ''notification.create''),
             (INFO, NA_Created_notification (PStr ''u'') (PStr ''Notification''))],
            NotificationAgent_init ''s''
              \<lparr> notifications :=
                  [KStr ''u'' \<mapsto>
                     [\<lparr> n_id = PInt 0, n_title = PStr ''Notification'', n_message = PStr [],
                        n_type = PStr ''info'', n_created_at = PFloat 1, n_read = False,
                        n_dismissed = False \<rparr>]] \<rparr>)
   \<and> py_eq cpython_defaults (PInt 0) (PInt 0) = Inr True
   \<and> NotificationAgent_process_message cpython_defaults
       (NotificationAgent_init ''s''
          \<lparr> notifications :=
              [KStr ''u'' \<mapsto>
                 [\<lparr> n_id = PInt 0, n_title = PStr ''Notification'', n_message = PStr [],
                    n_type = PStr ''info'', n_created_at = PFloat 1, n_read = False,
                    n_dismissed = False \<rparr>]] \<rparr>)
       \<lparr> message_type = ''notification.dismiss'',
         data = Some [(''user_id'', PStr ''u''), (''notification_id'', PInt 0)],
         timestamp = 0, sender = ''system'' \<rparr> 2
     = Inr ([(INFO, NA_Processing_message ''notification.dismiss''),
             (WARNING, NA_Dismiss_missing_ids)],
            NotificationAgent_init ''s''
              \<lparr> notifications :=
                  [KStr ''u'' \<mapsto>
                     [\<lparr> n_id = PInt 0, n_title = PStr ''Notification'', n_message = PStr [],
                        n_type = PStr ''info'', n_created_at = PFloat 1, n_read = False,
                        n_dismissed = False \<rparr>]] \<rparr>)"
  by (simp add: NotificationAgent_process_message_def NotificationAgent_dispatch_def
      create_notification_def dismiss_notification_def payload_def dict_get_def
      dict_get_default_def Let_def notifications_of_def NotificationAgent_init_stores
      fmt_all_def fmt_str py_eq_num)

text \<open>
  C9, amended: dismissing touches at most one record. When the notification agent
  processes a \<^verbatim>\<open>"notification.dismiss"\<close> message carrying \<^verbatim>\<open>user_id\<close> \<open>u\<close> and
  \<^verbatim>\<open>notification_id\<close> \<open>i\<close>, the hook returns, and the agent afterwards is either the agent as
  it was, or the agent in which the first notification of \<open>u\<close>'s list whose \<^verbatim>\<open>id\<close> equals \<open>i\<close>
  has \<^verbatim>\<open>dismissed\<close> set to \<^verbatim>\<open>True\<close>: the other fields of that notification, the other
  notifications of \<open>u\<close> (later ones with the same id too), the lists of the other users and
  the rest of the agent are as before. Nothing changes at all if \<open>u\<close> or \<open>i\<close> is falsy, if \<open>u\<close>
  has no list in the store, or if no comparison of \<open>i\<close> with an id of \<open>u\<close>'s list returns
  \<^verbatim>\<open>True\<close>. That first notification is dismissed whenever \<open>u\<close> and \<open>i\<close> are both truthy and
  the comparisons of \<open>i\<close> with the ids before it return \<^verbatim>\<open>False\<close> (none of them raises).
\<close>

theorem dismiss_touches_at_most_one_record:
  assumes "message_type m = ''notification.dismiss''"
    and "data m = Some d"
    and "u = dict_get d ''user_id''"
    and "i = dict_get d ''notification_id''"
  shows "\<exists>lg s'. NotificationAgent_process_message env s m t = Inr (lg, s')
           \<and> (s' = s
                \<or> (\<exists>k ns j. hash_key u = Inr k \<and> notifications s k = Some ns
                      \<and> j < length ns \<and> py_eq env (n_id (ns ! j)) i = Inr True
                      \<and> (\<forall>j'<j. py_eq env (n_id (ns ! j')) i = Inr False)
                      \<and> s' = s\<lparr> notifications := (notifications s)
                                  (k \<mapsto> ns[j := (ns ! j)\<lparr> n_dismissed := True \<rparr>]) \<rparr>))
           \<and> (\<not> truthy u \<or> \<not> truthy i \<longrightarrow> s' = s)
           \<and> ((\<forall>k ns. hash_key u = Inr k \<longrightarrow> notifications s k = Some ns
                       \<longrightarrow> (\<forall>n\<in>set ns. py_eq env (n_id n) i \<noteq> Inr True))
                 \<longrightarrow> s' = s)
           \<and> (truthy u \<and> truthy i \<longrightarrow>
                 (\<forall>k ns j. hash_key u = Inr k \<longrightarrow> notifications s k = Some ns
                    \<longrightarrow> j < length ns \<longrightarrow> py_eq env (n_id (ns ! j)) i = Inr True
                    \<longrightarrow> (\<forall>j'<j. py_eq env (n_id (ns ! j')) i = Inr False)
                    \<longrightarrow> s' = s\<lparr> notifications := (notifications s)
                                  (k \<mapsto> ns[j := (ns ! j)\<lparr> n_dismissed := True \<rparr>]) \<rparr>))"
    (is "\<exists>lg s'. ?P lg s'")
proof -
  let ?s' = "fst (snd (dismiss_notification env s m))"
  have disp: "NotificationAgent_dispatch env s m t = dismiss_notification env s m"
    using assms(1) by (simp add: NotificationAgent_dispatch_def)
  then obtain lg where ret: "NotificationAgent_process_message env s m t = Inr (lg, ?s')"
    by (simp add: NotificationAgent_process_message_eq)
  have unchanged: "?P lg ?s'" if same: "?s' = s"
    and none: "\<And>k ns j. truthy u \<Longrightarrow> truthy i \<Longrightarrow> hash_key u = Inr k
           \<Longrightarrow> notifications s k = Some ns
           \<Longrightarrow> j < length ns \<Longrightarrow> py_eq env (n_id (ns ! j)) i = Inr True
           \<Longrightarrow> \<forall>j'<j. py_eq env (n_id (ns ! j')) i = Inr False \<Longrightarrow> False"
    using ret that by blast
  have "?P lg ?s'"
  proof (cases "payload m = Some d \<and> truthy u \<and> truthy i")
    case False
    have "payload m = None \<or> payload m = Some d"
      using assms(2) by (simp add: payload_def)
    with False assms(3,4) have same: "?s' = s"
      by (intro dismiss_notification_guarded) auto
    have "\<not> (truthy u \<and> truthy i)"
    proof (cases "d = []")
      case True
      with assms(3) show ?thesis by (simp add: dict_get_def)
    next
      case nonempty: False
      with assms(2) have "payload m = Some d" by (simp add: payload_def)
      with False show ?thesis by simp
    qed
    with same show ?thesis by (intro unchanged) auto
  next
    case True
    then have pl: "payload m = Some d" and tu: "truthy (dict_get d ''user_id'')"
      and ti: "truthy (dict_get d ''notification_id'')"
      using assms(3,4) by simp_all
    show ?thesis
    proof (cases "hash_key u")
      case (Inl e)
      with pl assms(3) have "?s' = s"
        by (intro dismiss_notification_unhashable) simp_all
      with Inl show ?thesis by (intro unchanged) auto
    next
      case (Inr k)
      then have hk: "hash_key (dict_get d ''user_id'') = Inr k" using assms(3) by simp
      show ?thesis
      proof (cases "notifications s k")
        case None
        with pl hk have "?s' = s" by (intro dismiss_notification_no_list)
        with Inr None show ?thesis by (intro unchanged) auto
      next
        case (Some ns)
        let ?ns' = "fst (snd (dismiss_loop env u i ns))"
        have st: "?s' = s\<lparr> notifications := (notifications s)(k \<mapsto> ?ns') \<rparr>"
          using dismiss_notification_loop [OF pl tu ti hk Some] assms(3,4) by simp
        show ?thesis
        proof (cases "\<exists>j<length ns. py_eq env (n_id (ns ! j)) i = Inr True
                        \<and> (\<forall>j'<j. py_eq env (n_id (ns ! j')) i = Inr False)")
          case False
          with dismiss_loop_state [of env u i ns] have "?ns' = ns" by blast
          moreover from Some have "(notifications s)(k \<mapsto> ns) = notifications s" by auto
          ultimately have same: "?s' = s" using st by simp
          show ?thesis
          proof (rule unchanged [OF same])
            fix k' ns' j
            assume "hash_key u = Inr k'" "notifications s k' = Some ns'" "j < length ns'"
              "py_eq env (n_id (ns' ! j)) i = Inr True"
              "\<forall>j'<j. py_eq env (n_id (ns' ! j')) i = Inr False"
            with Inr Some False show False by auto
          qed
        next
          case True
          then obtain j where j: "j < length ns" "py_eq env (n_id (ns ! j)) i = Inr True"
            "\<forall>j'<j. py_eq env (n_id (ns ! j')) i = Inr False" by blast
          have ns': "?ns' = ns[j := (ns ! j)\<lparr> n_dismissed := True \<rparr>]"
            using j by (rule dismiss_loop_first_match)
          have uniq: "?s' = s\<lparr> notifications := (notifications s)
                      (k' \<mapsto> ns'[j' := (ns' ! j')\<lparr> n_dismissed := True \<rparr>]) \<rparr>"
            if "hash_key u = Inr k'" "notifications s k' = Some ns'" "j' < length ns'"
              "py_eq env (n_id (ns' ! j')) i = Inr True"
              "\<forall>l<j'. py_eq env (n_id (ns' ! l)) i = Inr False" for k' ns' j'
          proof -
            from that(1,2) Inr Some have "k' = k" "ns' = ns" by simp_all
            moreover have "j' = j"
            proof (rule ccontr)
              assume "j' \<noteq> j"
              then consider "j' < j" | "j < j'" by linarith
              then show False
              proof cases
                case 1
                with j(3) that(4) \<open>ns' = ns\<close> show False by auto
              next
                case 2
                with that(5) j(2) \<open>ns' = ns\<close> show False by auto
              qed
            qed
            ultimately show ?thesis using st ns' by simp
          qed
          have nomatch: "s' = s" if "\<forall>k ns. hash_key u = Inr k \<longrightarrow> notifications s k = Some ns
                       \<longrightarrow> (\<forall>n\<in>set ns. py_eq env (n_id n) i \<noteq> Inr True)" for s'
            using that Inr Some j(1,2) by (auto dest: nth_mem)
          have tr: "truthy u" "truthy i" using tu ti assms(3,4) by simp_all
          show ?thesis
            using ret Inr Some j uniq [of k ns j] uniq nomatch tr by blast
        qed
      qed
    qed
  qed
  then show ?thesis by blast
qed

theorem dismiss_touches_at_most_one_record_witness:
  "\<exists>lg. NotificationAgent_process_message cpython_defaults
          (NotificationAgent_init ''s''
             \<lparr> notifications :=
                 [KStr ''u'' \<mapsto>
                    [\<lparr> n_id = PStr ''a'', n_title = PStr ''A'', n_message = PStr [],
                       n_type = PStr ''info'', n_created_at = PFloat 1, n_read = False,
                       n_dismissed = False \<rparr>,
                     \<lparr> n_id = PInt 7, n_title = PStr ''B'', n_message = PStr [],
                       n_type = PStr ''info'', n_created_at = PFloat 2, n_read = False,
                       n_dismissed = False \<rparr>,
                     \<lparr> n_id = PInt 7, n_title = PStr ''C'', n_message = PStr [],
                       n_type = PStr ''info'', n_created_at = PFloat 3, n_read = False,
                       n_dismissed = False \<rparr>]] \<rparr>)
          \<lparr> message_type = ''notification.dismiss'',
            data = Some [(''user_id'', PStr ''u''), (''notification_id'', PFloat 7)],
            timestamp = 0, sender = ''system'' \<rparr> 0
        = Inr (lg,
               NotificationAgent_init ''s''
                 \<lparr> notifications :=
                     [KStr ''u'' \<mapsto>
                        [\<lparr> n_id = PStr ''a'', n_title = PStr ''A'', n_message = PStr [],
                           n_type = PStr ''info'', n_created_at = PFloat 1, n_read = False,
                           n_dismissed = False \<rparr>,
                         \<lparr> n_id = PInt 7, n_title = PStr ''B'', n_message = PStr [],
                           n_type = PStr ''info'', n_created_at = PFloat 2, n_read = False,
                           n_dismissed = True \<rparr>,
                         \<lparr> n_id = PInt 7, n_title = PStr ''C'', n_message = PStr [],
                           n_type = PStr ''info'', n_created_at = PFloat 3, n_read = False,
                           n_dismissed = False \<rparr>]] \<rparr>)"
proof -
  let ?a = "\<lparr> n_id = PStr ''a'', n_title = PStr ''A'', n_message = PStr [],
              n_type = PStr ''info'', n_created_at = PFloat 1, n_read = False,
              n_dismissed = False \<rparr>"
  let ?b = "\<lparr> n_id = PInt 7, n_title = PStr ''B'', n_message = PStr [],
              n_type = PStr ''info'', n_created_at = PFloat 2, n_read = False,
              n_dismissed = False \<rparr>"
  let ?c = "\<lparr> n_id = PInt 7, n_title = PStr ''C'', n_message = PStr [],
              n_type = PStr ''info'', n_created_at = PFloat 3, n_read = False,
              n_dismissed = False \<rparr>"
  let ?s = "NotificationAgent_init ''s'' \<lparr> notifications := [KStr ''u'' \<mapsto> [?a, ?b, ?c]] \<rparr>"
  let ?d = "[(''user_id'', PStr ''u''), (''notification_id'', PFloat 7)]"
  let ?m = "\<lparr> message_type = ''notification.dismiss'', data = Some ?d,
              timestamp = 0, sender = ''system'' \<rparr>"
  let ?e = cpython_defaults
  from dismiss_touches_at_most_one_record [of ?m ?d "PStr ''u''" "PFloat 7" ?e ?s 0]
  obtain lg s' where ret: "NotificationAgent_process_message ?e ?s ?m 0 = Inr (lg, s')"
    and first: "truthy (PStr ''u'') \<and> truthy (PFloat 7) \<longrightarrow>
      (\<forall>k ns j. hash_key (PStr ''u'') = Inr k \<longrightarrow> notifications ?s k = Some ns
         \<longrightarrow> j < length ns \<longrightarrow> py_eq ?e (n_id (ns ! j)) (PFloat 7) = Inr True
         \<longrightarrow> (\<forall>j'<j. py_eq ?e (n_id (ns ! j')) (PFloat 7) = Inr False)
         \<longrightarrow> s' = ?s\<lparr> notifications := (notifications ?s)
                        (k \<mapsto> ns[j := (ns ! j)\<lparr> n_dismissed := True \<rparr>]) \<rparr>)"
    by (auto simp: dict_get_def)
  have "s' = ?s\<lparr> notifications := (notifications ?s)
                  (KStr ''u'' \<mapsto> [?a, ?b, ?c][1 := ([?a, ?b, ?c] ! 1)\<lparr> n_dismissed := True \<rparr>]) \<rparr>"
  proof -
    have "truthy (PStr ''u'') \<and> truthy (PFloat 7)" by simp
    moreover have "hash_key (PStr ''u'') = Inr (KStr ''u'')" by simp
    moreover have "notifications ?s (KStr ''u'') = Some [?a, ?b, ?c]" by simp
    moreover have "(1::nat) < length [?a, ?b, ?c]" by simp
    moreover have "py_eq ?e (n_id ([?a, ?b, ?c] ! 1)) (PFloat 7) = Inr True"
      by (simp add: py_eq_num)
    moreover have "\<forall>j'<1. py_eq ?e (n_id ([?a, ?b, ?c] ! j')) (PFloat 7) = Inr False"
      by (simp add: py_eq_str_left)
    ultimately show ?thesis using first by blast
  qed
  with ret show ?thesis by simp
qed

text \<open>
  C10: listing marks exactly the listed notifications as read. In a state the agent can
  be in, processing a \<^verbatim>\<open>"notification.list"\<close> message for \<^verbatim>\<open>user_id\<close> \<open>u\<close> returns, and the
  agent afterwards differs from the agent before only in \<open>u\<close>'s list, which has the same
  notifications in the same order where: with \<^verbatim>\<open>include_dismissed\<close> absent or false, every
  notification whose \<^verbatim>\<open>dismissed\<close> is \<^verbatim>\<open>False\<close> has \<^verbatim>\<open>read\<close> set to \<^verbatim>\<open>True\<close> and every
  dismissed one is as it was; with \<^verbatim>\<open>include_dismissed\<close> true, every notification has
  \<^verbatim>\<open>read\<close> set to \<^verbatim>\<open>True\<close>. A user without a list stays without one, and a \<^verbatim>\<open>user_id\<close> that
  cannot be a dict key changes nothing.
\<close>

theorem list_marks_the_listed_as_read:
  assumes "reachable s"
    and "message_type m = ''notification.list''"
    and "data m = Some d"
    and "u = dict_get d ''user_id''"
    and "include_dismissed = truthy (dict_get_default d ''include_dismissed'' (PBool False))"
  shows "\<exists>lg s'. NotificationAgent_process_message env s m t = Inr (lg, s')
           \<and> (\<forall>k. hash_key u = Inr k \<longrightarrow>
                  s' = s\<lparr> notifications := (notifications s)(k :=
                         map_option
                           (map (\<lambda>n. if include_dismissed \<or> \<not> n_dismissed n
                                     then n\<lparr> n_read := True \<rparr> else n))
                           (notifications s k)) \<rparr>)
           \<and> (\<forall>e. hash_key u = Inl e \<longrightarrow> s' = s)"
proof -
  have disp: "NotificationAgent_dispatch env s m t = list_notifications env s m"
    using assms(2) by (simp add: NotificationAgent_dispatch_def)
  have ret: "\<exists>lg. NotificationAgent_process_message env s m t
               = Inr (lg, fst (snd (list_notifications env s m)))"
    by (simp add: NotificationAgent_process_message_eq disp)
  show ?thesis
  proof (cases "payload m = Some d \<and> truthy u")
    case True
    show ?thesis
    proof (cases "hash_key u")
      case (Inl e)
      with True assms(4) have "fst (snd (list_notifications env s m)) = s"
        by (simp add: list_notifications_def Let_def)
      with Inl ret show ?thesis by auto
    next
      case (Inr k)
      with True assms(4) list_notifications_truthy [of m d k env s]
      have "fst (snd (list_notifications env s m)) =
           s\<lparr> notifications := (notifications s)(k :=
                  map_option
                    (map (\<lambda>n. if truthy (dict_get_default d ''include_dismissed'' (PBool False))
                                   \<or> \<not> n_dismissed n
                              then n\<lparr> n_read := True \<rparr> else n))
                    (notifications s k)) \<rparr>"
        by auto
      with Inr ret assms(5) show ?thesis by auto
    qed
  next
    case False
    have same: "fst (snd (list_notifications env s m)) = s"
    proof (cases "payload m")
      case None
      then show ?thesis by (simp add: list_notifications_def)
    next
      case (Some d')
      with assms(3) have "d' = d"
        by (auto simp: payload_def split: if_splits)
      with Some False assms(4) show ?thesis
        by (simp add: list_notifications_def Let_def)
    qed
    have falsy: "\<not> truthy u"
    proof (cases "d = []")
      case True
      with assms(4) show ?thesis by (simp add: dict_get_def)
    next
      case nonempty: False
      with assms(3) have "payload m = Some d" by (simp add: payload_def)
      with False show ?thesis by simp
    qed
    have absent: "notifications s k = None" if "hash_key u = Inr k" for k
    proof -
      from falsy that have "k = KNone \<or> k = KNum 0 \<or> k = KStr []"
        by (cases u) auto
      with assms(1) show ?thesis by (rule reachable_falsy_keys)
    qed
    have "s\<lparr> notifications := (notifications s)(k := map_option f (notifications s k)) \<rparr> = s"
      if "hash_key u = Inr k" for k f
    proof -
      from absent [OF that] have "(notifications s)(k := None) = notifications s" by auto
      with absent [OF that] show ?thesis by simp
    qed
    with same ret show ?thesis by auto
  qed
qed

theorem list_marks_the_listed_as_read_witness:
  "\<exists>lg1 s1 lg2 s2 lg3 s3 lg4.
     NotificationAgent_process_message cpython_defaults (NotificationAgent_init ''s'')
       \<lparr> message_type = ''notification.create'',
         data = Some [(''user_id'', PStr ''u''), (''title'', PStr ''A'')],
         timestamp = 0, sender = ''system'' \<rparr> 1 = Inr (lg1, s1)
     \<and> NotificationAgent_process_message cpython_defaults s1
       \<lparr> message_type = ''notification.create'',
         data = Some [(''user_id'', PStr ''u''), (''id'', PInt 7), (''title'', PStr ''B'')],
         timestamp = 0, sender = ''system'' \<rparr> 2 = Inr (lg2, s2)
     \<and> NotificationAgent_process_message cpython_defaults s2
       \<lparr> message_type = ''notification.dismiss'',
         data = Some [(''user_id'', PStr ''u''), (''notification_id'', PStr ''notif_0'')],
         timestamp = 0, sender = ''system'' \<rparr> 3 = Inr (lg3, s3)
     \<and> reachable s3
     \<and> notifications s3 (KStr ''u'') = Some
          [\<lparr> n_id = PStr ''notif_0'', n_title = PStr ''A'', n_message = PStr [],
             n_type = PStr ''info'', n_created_at = PFloat 1, n_read = False,
             n_dismissed = True \<rparr>,
           \<lparr> n_id = PInt 7, n_title = PStr ''B'', n_message = PStr [],
             n_type = PStr ''info'', n_created_at = PFloat 2, n_read = False,
             n_dismissed = False \<rparr>]
     \<and> NotificationAgent_process_message cpython_defaults s3
       \<lparr> message_type = ''notification.list'', data = Some [(''user_id'', PStr ''u'')],
         timestamp = 0, sender = ''system'' \<rparr> 4
        = Inr (lg4, s3\<lparr> notifications := (notifications s3)(KStr ''u'' \<mapsto>
          [\<lparr> n_id = PStr ''notif_0'', n_title = PStr ''A'', n_message = PStr [],
             n_type = PStr ''info'', n_created_at = PFloat 1, n_read = False,
             n_dismissed = True \<rparr>,
           \<lparr> n_id = PInt 7, n_title = PStr ''B'', n_message = PStr [],
             n_type = PStr ''info'', n_created_at = PFloat 2, n_read = True,
             n_dismissed = False \<rparr>]) \<rparr>)"
proof -
  let ?s0 = "NotificationAgent_init ''s''"
  let ?m1 = "\<lparr> message_type = ''notification.create'',
         data = Some [(''user_id'', PStr ''u''), (''title'', PStr ''A'')],
         timestamp = 0, sender = ''system'' \<rparr>"
  let ?m2 = "\<lparr> message_type = ''notification.create'',
         data = Some [(''user_id'', PStr ''u''), (''id'', PInt 7), (''title'', PStr ''B'')],
         timestamp = 0, sender = ''system'' \<rparr>"
  let ?m3 = "\<lparr> message_type = ''notification.dismiss'',
         data = Some [(''user_id'', PStr ''u''), (''notification_id'', PStr ''notif_0'')],
         timestamp = 0, sender = ''system'' \<rparr>"
  let ?m4 = "\<lparr> message_type = ''notification.list'', data = Some [(''user_id'', PStr ''u'')],
         timestamp = 0, sender = ''system'' \<rparr>"
  let ?a = "\<lparr> n_id = PStr ''notif_0'', n_title = PStr ''A'', n_message = PStr [],
             n_type = PStr ''info'', n_created_at = PFloat 1, n_read = False,
             n_dismissed = False \<rparr>"
  let ?b = "\<lparr> n_id = PInt 7, n_title = PStr ''B'', n_message = PStr [],
             n_type = PStr ''info'', n_created_at = PFloat 2, n_read = False,
             n_dismissed = False \<rparr>"
  let ?s1 = "?s0\<lparr> notifications := [KStr ''u'' \<mapsto> [?a]] \<rparr>"
  let ?s2 = "?s0\<lparr> notifications := [KStr ''u'' \<mapsto> [?a, ?b]] \<rparr>"
  let ?a' = "\<lparr> n_id = PStr ''notif_0'', n_title = PStr ''A'', n_message = PStr [],
             n_type = PStr ''info'', n_created_at = PFloat 1, n_read = False,
             n_dismissed = True \<rparr>"
  let ?b' = "\<lparr> n_id = PInt 7, n_title = PStr ''B'', n_message = PStr [],
             n_type = PStr ''info'', n_created_at = PFloat 2, n_read = True,
             n_dismissed = False \<rparr>"
  let ?s3 = "?s0\<lparr> notifications := [KStr ''u'' \<mapsto> [?a', ?b]] \<rparr>"
  have p1: "NotificationAgent_process_message cpython_defaults ?s0 ?m1 1
      = Inr ([(INFO, NA_Processing_message ''notification.create''),
              (INFO, NA_Created_notification (PStr ''u'') (PStr ''A''))], ?s1)"
    by (simp add: NotificationAgent_process_message_def NotificationAgent_dispatch_def
        create_notification_def payload_def dict_get_def dict_get_default_def Let_def
        notifications_of_def NotificationAgent_init_stores str_nat_0 fmt_all_def fmt_str)
  have p2: "NotificationAgent_process_message cpython_defaults ?s1 ?m2 2
      = Inr ([(INFO, NA_Processing_message ''notification.create''),
              (INFO, NA_Created_notification (PStr ''u'') (PStr ''B''))], ?s2)"
    by (simp add: NotificationAgent_process_message_def NotificationAgent_dispatch_def
        create_notification_def payload_def dict_get_def dict_get_default_def Let_def
        notifications_of_def NotificationAgent_init_stores fmt_all_def fmt_str)
  have p3: "NotificationAgent_process_message cpython_defaults ?s2 ?m3 3
      = Inr ([(INFO, NA_Processing_message ''notification.dismiss''),
              (INFO, NA_Dismissed_notification (PStr ''notif_0'') (PStr ''u''))], ?s3)"
    by (simp add: NotificationAgent_process_message_def NotificationAgent_dispatch_def
        dismiss_notification_def payload_def dict_get_def Let_def py_eq_str fmt_all_def
        fmt_str)
  have r: "reachable ?s3"
    using reachable.delivered [OF reachable.delivered [OF reachable.delivered
          [OF reachable.constructed p1] p2] p3] .
  have n3: "notifications ?s3 (KStr ''u'') = Some [?a', ?b]"
    by simp
  have u: "hash_key (dict_get [(''user_id'', PStr ''u'')] ''user_id'') = Inr (KStr ''u'')"
    by (simp add: dict_get_def)
  from list_marks_the_listed_as_read [OF r, of ?m4 "[(''user_id'', PStr ''u'')]" "PStr ''u''"
      False cpython_defaults 4] u
  obtain lg4 where p4: "NotificationAgent_process_message cpython_defaults ?s3 ?m4 4
      = Inr (lg4, ?s3\<lparr> notifications := (notifications ?s3)(KStr ''u'' \<mapsto> [?a', ?b']) \<rparr>)"
    by (auto simp: dict_get_def dict_get_default_def)
  show ?thesis
    by (insert p1 p2 p3 r n3 p4, intro exI conjI) assumption+
qed

end
